theory Spec2Isabelle
  imports Complex_Main
begin

section \<open>JavaScript values\<close>

text \<open>
  The backend is one JavaScript module (\<^verbatim>\<open>backend.js\<close>): a phone-number normaliser and four
  Express handlers. Its inputs are parsed JSON documents and the outcomes of the two
  provider calls, so the model works on untyped JavaScript values.

  A JavaScript string is a sequence of UTF-16 code units. A code unit is modelled as a
  natural number (the booking message holds code units above 255, so \<open>char\<close> is too
  small); \<open>js\<close> turns an ASCII literal into such a sequence.
\<close>

type_synonym jsstring = "nat list"

definition js :: "string \<Rightarrow> jsstring" where
  "js s = map of_char s"

text \<open>
  A Number is NaN, an infinity or a finite value, held as the rational it denotes. The two
  zeros are identified: nothing in the module tells them apart (both are falsy, neither is
  NaN, no division has a variable divisor).
\<close>

datatype jsnum = NaN | PInf | NInf | Fin rat

datatype jsval =
    JUndefined
  | JNull
  | JBool bool
  | JNum jsnum
  | JStr jsstring
  | JArr "jsval list"
  | JObj "(jsstring \<times> jsval) list"

text \<open>
  What a \<^verbatim>\<open>catch\<close> block receives. \<open>TypeError\<close> is the engine's (a property read on
  \<^verbatim>\<open>null\<close> or \<^verbatim>\<open>undefined\<close>, a call of something that is no function), and \<open>Rejected\<close> is
  the rejection of a provider's promise, with its \<^verbatim>\<open>status\<close> and \<^verbatim>\<open>message\<close> properties and
  whether it is an \<^verbatim>\<open>instanceof Error\<close>.
\<close>

record rejection =
  rej_status :: jsval
  rej_message :: jsval
  rej_is_Error :: bool

datatype thrown = TypeError | Rejected rejection

text \<open>ToBoolean.\<close>

fun truthy :: "jsval \<Rightarrow> bool" where
  "truthy JUndefined = False"
| "truthy JNull = False"
| "truthy (JBool b) = b"
| "truthy (JNum NaN) = False"
| "truthy (JNum (Fin q)) = (q \<noteq> 0)"
| "truthy (JNum _) = True"
| "truthy (JStr s) = (s \<noteq> [])"
| "truthy (JArr _) = True"
| "truthy (JObj _) = True"

section \<open>The phone-number normaliser\<close>

text \<open>
  \<^verbatim>\<open>
  const formatPhoneNumberForTwilio = (number) => {
      if (!number) return null;
      // Remove any non-digit characters except for a leading '+'
      let cleanedNumber = number.replace(/[^\d+]/g, '');
      if (!cleanedNumber.startsWith('+')) {
          return `+91${cleanedNumber}`;
      }
      return cleanedNumber;
  };
  \<close>
  The class \<^verbatim>\<open>[^\d+]\<close> is every code unit that is neither an ASCII digit nor \<^verbatim>\<open>+\<close>, so the
  global replace keeps exactly the digits and every \<^verbatim>\<open>+\<close>. A truthy value that is no string
  has no callable \<^verbatim>\<open>replace\<close>, and the call throws.
\<close>

definition is_digit :: "nat \<Rightarrow> bool" where
  "is_digit c \<longleftrightarrow> 48 \<le> c \<and> c \<le> 57"

definition plus_sign :: nat where
  "plus_sign = 43"

definition kept_by_cleaning :: "nat \<Rightarrow> bool" where
  "kept_by_cleaning c \<longleftrightarrow> is_digit c \<or> c = plus_sign"

fun startsWith_plus :: "jsstring \<Rightarrow> bool" where
  "startsWith_plus [] = False"
| "startsWith_plus (c # cs) = (c = plus_sign)"

definition formatPhoneNumberForTwilio :: "jsval \<Rightarrow> thrown + jsval" where
  "formatPhoneNumberForTwilio number =
     (if \<not> truthy number then Inr JNull
      else case number of
        JStr s \<Rightarrow>
          (let cleanedNumber = filter kept_by_cleaning s
           in if \<not> startsWith_plus cleanedNumber
              then Inr (JStr (js ''+91'' @ cleanedNumber))
              else Inr (JStr cleanedNumber))
      | _ \<Rightarrow> Inl TypeError)"

section \<open>Numbers\<close>

text \<open>
  Arithmetic on Numbers is IEEE 754 binary64: the exact result, rounded to the nearest
  double, ties to even. \<open>rd\<close> is that rounding of a rational: the unit in the last place
  is \<open>2 ^ (max e (-1022) - 52)\<close> for a value in \<open>[2 ^ e, 2 ^ (e + 1))\<close>, and a result of
  \<open>2 ^ 1024\<close> or more is an infinity.
\<close>

definition pow2 :: "int \<Rightarrow> rat" where
  "pow2 k = (if 0 \<le> k then 2 ^ nat k else 1 / 2 ^ nat (- k))"

function bit_length :: "int \<Rightarrow> int" where
  \<comment> \<open>the number of binary digits of a positive integer\<close>
  "bit_length n = (if n \<le> 0 then 0 else 1 + bit_length (n div 2))"
  by pat_completeness auto
termination
  by (relation "measure nat") auto

declare bit_length.simps [simp del]

definition ilog2 :: "rat \<Rightarrow> int" where
  \<comment> \<open>the floor of the binary logarithm of a positive rational\<close>
  "ilog2 a =
     (if 1 \<le> a then bit_length \<lfloor>a\<rfloor> - 1
      else (let l = bit_length \<lfloor>1 / a\<rfloor> - 1
            in if pow2 l = 1 / a then - l else - l - 1))"

definition round_half_even :: "rat \<Rightarrow> int" where
  "round_half_even t =
     (let m = \<lfloor>t\<rfloor>; f = t - of_int m
      in if f < 1 / 2 then m
         else if 1 / 2 < f then m + 1
         else if even m then m else m + 1)"

definition rd :: "rat \<Rightarrow> jsnum" where
  "rd q =
     (if q = 0 then Fin 0
      else
        (let a = \<bar>q\<bar>;
             ulp = pow2 (max (ilog2 a) (- 1022) - 52);
             r = of_int (round_half_even (a / ulp)) * ulp
         in if pow2 1024 \<le> r then (if q < 0 then NInf else PInf)
            else Fin (if q < 0 then - r else r)))"

text \<open>\<^verbatim>\<open>a + b\<close> on Numbers.\<close>

fun num_add :: "jsnum \<Rightarrow> jsnum \<Rightarrow> jsnum" where
  "num_add NaN _ = NaN"
| "num_add _ NaN = NaN"
| "num_add PInf NInf = NaN"
| "num_add NInf PInf = NaN"
| "num_add PInf _ = PInf"
| "num_add _ PInf = PInf"
| "num_add NInf _ = NInf"
| "num_add _ NInf = NInf"
| "num_add (Fin a) (Fin b) = rd (a + b)"

text \<open>\<^verbatim>\<open>a / 1_000_000_000\<close>, the only division of the module.\<close>

fun div_1e9 :: "jsnum \<Rightarrow> jsnum" where
  "div_1e9 (Fin a) = rd (a / 1000000000)"
| "div_1e9 x = x"

text \<open>\<^verbatim>\<open>isNaN(x)\<close> on a Number.\<close>

fun isNaN :: "jsnum \<Rightarrow> bool" where
  "isNaN NaN = True"
| "isNaN _ = False"

text \<open>
  \<^verbatim>\<open>parseFloat(x.toFixed(2))\<close>. \<^verbatim>\<open>toFixed\<close> prints NaN and the infinities by name and a
  magnitude of \<open>10 ^ 21\<close> or more as \<^verbatim>\<open>String(x)\<close> does, and \<^verbatim>\<open>parseFloat\<close> reads each of
  these back as the same Number. Below \<open>10 ^ 21\<close> it prints the sign and the integer \<open>n\<close>
  for which \<open>n / 100\<close> is nearest to the magnitude (the larger \<open>n\<close> on a tie) with a point
  before its last two digits, and \<^verbatim>\<open>parseFloat\<close> reads that decimal as the nearest double.
\<close>

definition hundredths :: "rat \<Rightarrow> int" where
  "hundredths a = \<lfloor>a * 100 + 1 / 2\<rfloor>"

fun parseFloat_toFixed2 :: "jsnum \<Rightarrow> jsnum" where
  "parseFloat_toFixed2 (Fin q) =
     (if 10 ^ 21 \<le> \<bar>q\<bar> then Fin q
      else if q < 0 then rd (- (of_int (hundredths (- q)) / 100))
      else rd (of_int (hundredths q) / 100))"
| "parseFloat_toFixed2 x = x"

section \<open>Conversion to a Number\<close>

text \<open>
  The white space of \<^verbatim>\<open>\s\<close>, of \<^verbatim>\<open>trim\<close> and of the numeric string grammar: tab, line feed,
  vertical tab, form feed, carriage return, space, no-break space, the Unicode space
  separators, the line and paragraph separators and the byte order mark.
\<close>

definition is_white :: "nat \<Rightarrow> bool" where
  "is_white c \<longleftrightarrow>
     c \<in> {9, 10, 11, 12, 13, 32, 160, 5760, 8232, 8233, 8239, 8287, 12288, 65279}
     \<or> (8192 \<le> c \<and> c \<le> 8202)"

definition trim :: "jsstring \<Rightarrow> jsstring" where
  "trim s = rev (dropWhile is_white (rev (dropWhile is_white s)))"

definition digit_of :: "nat \<Rightarrow> nat" where
  \<comment> \<open>the value of a digit of a radix up to 16, and 16 for any other code unit\<close>
  "digit_of c =
     (if 48 \<le> c \<and> c \<le> 57 then c - 48
      else if 97 \<le> c \<and> c \<le> 102 then c - 87
      else if 65 \<le> c \<and> c \<le> 70 then c - 55
      else 16)"

definition radix_value :: "nat \<Rightarrow> jsstring \<Rightarrow> int" where
  "radix_value b ds = foldl (\<lambda>n c. int b * n + int (digit_of c)) 0 ds"

definition pow10 :: "int \<Rightarrow> rat" where
  "pow10 k = (if 0 \<le> k then 10 ^ nat k else 1 / 10 ^ nat (- k))"

text \<open>The prefix of a binary, octal or hexadecimal literal: its radix and its digits.\<close>

fun radix_literal :: "jsstring \<Rightarrow> (nat \<times> jsstring) option" where
  "radix_literal (c0 # cx # ds) =
     (if c0 \<noteq> 48 then None
      else if cx = 120 \<or> cx = 88 then Some (16, ds)
      else if cx = 111 \<or> cx = 79 then Some (8, ds)
      else if cx = 98 \<or> cx = 66 then Some (2, ds)
      else None)"
| "radix_literal _ = None"

definition all_digits :: "jsstring \<Rightarrow> bool" where
  "all_digits ds \<longleftrightarrow> ds \<noteq> [] \<and> list_all is_digit ds"

text \<open>What follows the mantissa: nothing, or \<^verbatim>\<open>e\<close> or \<^verbatim>\<open>E\<close>, an optional sign and digits.\<close>

fun exponent_part :: "jsstring \<Rightarrow> int option" where
  "exponent_part [] = Some 0"
| "exponent_part (c # cs) =
     (if c = 101 \<or> c = 69 then
        (case cs of
           [] \<Rightarrow> None
         | s # ds \<Rightarrow>
             if s = 45 then (if all_digits ds then Some (- radix_value 10 ds) else None)
             else if s = 43 then (if all_digits ds then Some (radix_value 10 ds) else None)
             else (if all_digits cs then Some (radix_value 10 cs) else None))
      else None)"

text \<open>
  An unsigned decimal literal: digits, an optional point and digits, an optional exponent,
  with a digit before or after the point.
\<close>

definition decimal_value :: "jsstring \<Rightarrow> rat option" where
  "decimal_value r =
     (let ip = takeWhile is_digit r;
          r1 = dropWhile is_digit r;
          fp = (case r1 of [] \<Rightarrow> [] | c # t \<Rightarrow> if c = 46 then takeWhile is_digit t else []);
          r2 = (case r1 of [] \<Rightarrow> [] | c # t \<Rightarrow> if c = 46 then dropWhile is_digit t else r1)
      in if ip = [] \<and> fp = [] then None
         else (case exponent_part r2 of
                 None \<Rightarrow> None
               | Some e \<Rightarrow>
                   Some (of_int (radix_value 10 (ip @ fp)) / 10 ^ length fp * pow10 e)))"

definition unsigned_literal :: "jsstring \<Rightarrow> jsnum" where
  "unsigned_literal r =
     (if r = js ''Infinity'' then PInf
      else (case decimal_value r of None \<Rightarrow> NaN | Some q \<Rightarrow> rd q))"

fun negate :: "jsnum \<Rightarrow> jsnum" where
  "negate NaN = NaN"
| "negate PInf = NInf"
| "negate NInf = PInf"
| "negate (Fin q) = Fin (- q)"

text \<open>
  \<^verbatim>\<open>Number(s)\<close> on a string: the string without the white space at its ends is empty (zero),
  a literal of radix 2, 8 or 16 without a sign, or a decimal literal or \<^verbatim>\<open>Infinity\<close> with an
  optional sign; anything else is NaN. The value is rounded to the nearest double.
\<close>

definition string_to_number :: "jsstring \<Rightarrow> jsnum" where
  "string_to_number s0 =
     (let s = trim s0
      in if s = [] then Fin 0
         else (case radix_literal s of
                 Some (b, ds) \<Rightarrow>
                   if ds \<noteq> [] \<and> list_all (\<lambda>c. digit_of c < b) ds
                   then rd (of_int (radix_value b ds)) else NaN
               | None \<Rightarrow>
                   (case s of
                      [] \<Rightarrow> NaN
                    | c # r \<Rightarrow>
                        if c = 45 then negate (unsigned_literal r)
                        else if c = 43 then unsigned_literal r
                        else unsigned_literal s)))"

text \<open>
  The conversion of a value to a primitive, which \<^verbatim>\<open>Number(v)\<close>, \<^verbatim>\<open>v > 0\<close> and a template
  literal start with. An object parsed from JSON has only data members: its \<^verbatim>\<open>valueOf\<close>
  is inherited and gives back the object, or is a member and no function, so the
  conversion rests on \<^verbatim>\<open>toString\<close>. The inherited one prints \<^verbatim>\<open>[object Object]\<close>; a member
  named \<^verbatim>\<open>toString\<close> is no function, and the conversion throws a TypeError. An array
  prints its elements, so its conversion throws when that of an element does.
\<close>

fun conversion_throws :: "jsval \<Rightarrow> bool" where
  "conversion_throws (JObj kvs) \<longleftrightarrow> js ''toString'' \<in> set (map fst kvs)"
| "conversion_throws (JArr xs) \<longleftrightarrow> list_ex conversion_throws xs"
| "conversion_throws _ \<longleftrightarrow> False"

text \<open>
  The Number a value converts to when the conversion does not throw. An array goes through
  its string: the empty array is the empty string, an array of one element is that
  element's string (empty for \<^verbatim>\<open>null\<close> and \<^verbatim>\<open>undefined\<close>, and a Number prints to a decimal
  that reads back as itself), and a longer one holds a comma and is no number. An object
  prints as \<^verbatim>\<open>[object Object]\<close>.
\<close>

fun number_value :: "jsval \<Rightarrow> jsnum" where
  "number_value JUndefined = NaN"
| "number_value JNull = Fin 0"
| "number_value (JBool b) = (if b then Fin 1 else Fin 0)"
| "number_value (JNum n) = n"
| "number_value (JStr s) = string_to_number s"
| "number_value (JObj _) = NaN"
| "number_value (JArr []) = Fin 0"
| "number_value (JArr [JUndefined]) = Fin 0"
| "number_value (JArr [JNull]) = Fin 0"
| "number_value (JArr [JBool b]) = NaN"
| "number_value (JArr [JNum n]) = n"
| "number_value (JArr [JStr s]) = string_to_number s"
| "number_value (JArr [JObj _]) = NaN"
| "number_value (JArr [JArr xs]) = number_value (JArr xs)"
| "number_value (JArr (x # y # zs)) = NaN"

text \<open>\<^verbatim>\<open>Number(v)\<close>.\<close>

definition to_number :: "jsval \<Rightarrow> thrown + jsnum" where
  "to_number v = (if conversion_throws v then Inl TypeError else Inr (number_value v))"

text \<open>\<^verbatim>\<open>n || 0\<close> on a Number, and \<^verbatim>\<open>v > 0\<close>.\<close>

definition or_zero :: "jsnum \<Rightarrow> jsnum" where
  "or_zero n = (if truthy (JNum n) then n else Fin 0)"

definition gt_zero :: "jsval \<Rightarrow> thrown + bool" where
  "gt_zero v =
     (case to_number v of
        Inl e \<Rightarrow> Inl e
      | Inr n \<Rightarrow> Inr (case n of PInf \<Rightarrow> True | Fin q \<Rightarrow> 0 < q | _ \<Rightarrow> False))"

section \<open>Reading properties\<close>

text \<open>
  An object parsed from JSON holds its members in document order, and a repeated name has
  its last value. \<open>read_prop\<close> reads a named property of a value that is neither \<^verbatim>\<open>null\<close> nor
  \<^verbatim>\<open>undefined\<close>: the names the module reads are data names and \<^verbatim>\<open>length\<close>, which strings
  and arrays have. \<open>get_prop\<close> is the read as the engine does it, throwing on \<^verbatim>\<open>null\<close> and
  \<^verbatim>\<open>undefined\<close>; \<open>first_element\<close> is \<^verbatim>\<open>v[0]\<close>.
\<close>

definition lookup :: "(jsstring \<times> jsval) list \<Rightarrow> jsstring \<Rightarrow> jsval" where
  "lookup kvs k = (case map_of (rev kvs) k of None \<Rightarrow> JUndefined | Some v \<Rightarrow> v)"

fun read_prop :: "jsval \<Rightarrow> jsstring \<Rightarrow> jsval" where
  "read_prop (JObj kvs) k = lookup kvs k"
| "read_prop (JStr s) k = (if k = js ''length'' then JNum (Fin (of_nat (length s))) else JUndefined)"
| "read_prop (JArr xs) k = (if k = js ''length'' then JNum (Fin (of_nat (length xs))) else JUndefined)"
| "read_prop _ k = JUndefined"

fun nullish :: "jsval \<Rightarrow> bool" where
  "nullish JUndefined = True"
| "nullish JNull = True"
| "nullish _ = False"

definition get_prop :: "jsval \<Rightarrow> jsstring \<Rightarrow> thrown + jsval" where
  "get_prop v k = (if nullish v then Inl TypeError else Inr (read_prop v k))"

fun first_element :: "jsval \<Rightarrow> jsval" where
  "first_element (JArr (x # xs)) = x"
| "first_element (JStr (c # cs)) = JStr [c]"
| "first_element (JObj kvs) = lookup kvs (js ''0'')"
| "first_element _ = JUndefined"

section \<open>The toll handler\<close>

text \<open>
  A response is the status code and the object handed to \<^verbatim>\<open>res.json\<close>.
\<close>

record response =
  status :: nat
  body :: jsval

definition message_body :: "jsstring \<Rightarrow> jsval" where
  "message_body m = JObj [(js ''message'', JStr m)]"

text \<open>
  The callback of \<^verbatim>\<open>forEach\<close>, from the running total and one entry to the new total:
  \<^verbatim>\<open>
  if (price.currencyCode === 'INR') {
      const units = Number(price.units) || 0;
      const nanos = Number(price.nanos) || 0;
      if (!isNaN(units) && !isNaN(nanos)) {
          calculatedToll += units + nanos / 1_000_000_000;
      } else { console.warn(...); }
  }
  \<close>
  The template literal that the callback logs between the two conversions and the test
  prints \<^verbatim>\<open>price.units\<close> and \<^verbatim>\<open>price.nanos\<close>; it throws on the values on which
  \<^verbatim>\<open>Number\<close> has thrown before it, and on no other.
\<close>

definition add_price :: "jsnum \<Rightarrow> jsval \<Rightarrow> thrown + jsnum" where
  "add_price calculatedToll price =
     (case get_prop price (js ''currencyCode'') of
        Inl e \<Rightarrow> Inl e
      | Inr currencyCode \<Rightarrow>
          if currencyCode = JStr (js ''INR'') then
            (case to_number (read_prop price (js ''units'')) of
               Inl e \<Rightarrow> Inl e
             | Inr u \<Rightarrow>
                 (case to_number (read_prop price (js ''nanos'')) of
                    Inl e \<Rightarrow> Inl e
                  | Inr n \<Rightarrow>
                      (let units = or_zero u; nanos = or_zero n
                       in if \<not> isNaN units \<and> \<not> isNaN nanos
                          then Inr (num_add calculatedToll (num_add units (div_1e9 nanos)))
                          else Inr calculatedToll)))
          else Inr calculatedToll)"

text \<open>\<^verbatim>\<open>estimatedPrice.forEach\<close>: an exception in the callback ends the loop.\<close>

fun forEach_price :: "jsval list \<Rightarrow> jsnum \<Rightarrow> thrown + jsnum" where
  "forEach_price [] calculatedToll = Inr calculatedToll"
| "forEach_price (price # rest) calculatedToll =
     (case add_price calculatedToll price of
        Inl e \<Rightarrow> Inl e
      | Inr t \<Rightarrow> forEach_price rest t)"

text \<open>
  Lines 246 to 272: the total of the parsed response \<^verbatim>\<open>data\<close>.
  \<^verbatim>\<open>
  let calculatedToll = 0;
  if (data.routes && data.routes.length > 0) {
      const firstRoute = data.routes[0];
      if (firstRoute.travelAdvisory && firstRoute.travelAdvisory.tollInfo
          && firstRoute.travelAdvisory.tollInfo.estimatedPrice) {
          firstRoute.travelAdvisory.tollInfo.estimatedPrice.forEach((price) => { ... });
      }
  }
  \<close>
  Only an array has a \<^verbatim>\<open>forEach\<close> to call.
\<close>

definition calculate_toll :: "jsval \<Rightarrow> thrown + jsnum" where
  "calculate_toll data =
     (case get_prop data (js ''routes'') of
        Inl e \<Rightarrow> Inl e
      | Inr routes \<Rightarrow>
          (case (if truthy routes then gt_zero (read_prop routes (js ''length''))
                 else Inr False) of
             Inl e \<Rightarrow> Inl e
           | Inr has_routes \<Rightarrow>
               if has_routes then
                 (let firstRoute = first_element routes
                  in case get_prop firstRoute (js ''travelAdvisory'') of
                       Inl e \<Rightarrow> Inl e
                     | Inr travelAdvisory \<Rightarrow>
                         (let tollInfo = read_prop travelAdvisory (js ''tollInfo'');
                              estimatedPrice = read_prop tollInfo (js ''estimatedPrice'')
                          in if truthy travelAdvisory \<and> truthy tollInfo \<and> truthy estimatedPrice
                             then (case estimatedPrice of
                                     JArr prices \<Rightarrow> forEach_price prices (Fin 0)
                                   | _ \<Rightarrow> Inl TypeError)
                             else Inr (Fin 0)))
               else Inr (Fin 0)))"

text \<open>
  Lines 277 to 282: the guard and the rounding.
  \<^verbatim>\<open>
  if (typeof calculatedToll !== 'number' || isNaN(calculatedToll)) { calculatedToll = 0; }
  res.json({ tollAmount: parseFloat(calculatedToll.toFixed(2)) });
  \<close>
\<close>

definition toll_amount :: "jsnum \<Rightarrow> jsnum" where
  "toll_amount calculatedToll =
     parseFloat_toFixed2 (if isNaN calculatedToll then Fin 0 else calculatedToll)"

definition toll_response :: "jsnum \<Rightarrow> response" where
  "toll_response x = \<lparr>status = 200, body = JObj [(js ''tollAmount'', JNum x)]\<rparr>"

text \<open>
  The \<^verbatim>\<open>details\<close> of an upstream error: \<^verbatim>\<open>errorData.error ? errorData.error.message :
  (errorData.message || 'Unknown error from Google API')\<close>.
\<close>

definition error_details :: "jsval \<Rightarrow> thrown + jsval" where
  "error_details errorData =
     (case get_prop errorData (js ''error'') of
        Inl e \<Rightarrow> Inl e
      | Inr err \<Rightarrow>
          if truthy err then Inr (read_prop err (js ''message''))
          else (let m = read_prop errorData (js ''message'')
                in Inr (if truthy m then m else JStr (js ''Unknown error from Google API''))))"

text \<open>
  What \<^verbatim>\<open>fetch\<close> gave: a rejection, or a response with its status and what
  \<^verbatim>\<open>response.json()\<close> gives (\<open>None\<close> when the body is no JSON and the call throws).
\<close>

datatype upstream = FetchFailed | FetchResponse nat "jsval option"

definition response_ok :: "nat \<Rightarrow> bool" where
  "response_ok st \<longleftrightarrow> 200 \<le> st \<and> st \<le> 299"

text \<open>
  The body of the 500 response of the outer \<^verbatim>\<open>catch\<close> also has a \<^verbatim>\<open>details\<close> member,
  the message text of the caught error; the text of an engine error is the engine's own,
  and the model leaves the member out.
\<close>

definition internal_error :: response where
  "internal_error =
     \<lparr>status = 500, body = message_body (js ''Internal server error during toll calculation.'')\<rparr>"

definition get_tolls :: "jsval \<Rightarrow> jsval \<Rightarrow> upstream \<Rightarrow> response" where
  "get_tolls pickup dropoff googleResponse =
     (if \<not> truthy pickup \<or> \<not> truthy dropoff
      then \<lparr>status = 400, body = message_body (js ''Pickup and dropoff locations are required.'')\<rparr>
      else (case googleResponse of
              FetchFailed \<Rightarrow> internal_error
            | FetchResponse st parsed \<Rightarrow>
                if \<not> response_ok st then
                  (let errorData =
                         (case parsed of
                            None \<Rightarrow>
                              JObj [(js ''message'',
                                     JStr (js ''Could not parse error response from Google API.''))]
                          | Some v \<Rightarrow> v)
                   in case error_details errorData of
                        Inl e \<Rightarrow> internal_error
                      | Inr details \<Rightarrow>
                          \<lparr>status = st,
                           body = JObj [(js ''message'',
                                         JStr (js ''Error fetching route from Google Maps API'')),
                                        (js ''details'', details)]\<rparr>)
                else (case parsed of
                        None \<Rightarrow> internal_error
                      | Some data \<Rightarrow>
                          (case calculate_toll data of
                             Inl e \<Rightarrow> internal_error
                           | Inr calculatedToll \<Rightarrow> toll_response (toll_amount calculatedToll)))))"

subsection \<open>The total as the specification words it\<close>

text \<open>
  The entries of \<^verbatim>\<open>routes[0].travelAdvisory.tollInfo.estimatedPrice\<close>, none when any part of
  the path is absent; the amount of an entry, \<^verbatim>\<open>units + nanos / 1_000_000_000\<close> with a
  piece that is no number taken as 0; the sum over the entries in INR; and its rounding to
  two decimal places.
\<close>

definition spec_entries :: "jsval \<Rightarrow> jsval list" where
  "spec_entries data =
     (case read_prop (read_prop (read_prop (first_element (read_prop data (js ''routes'')))
             (js ''travelAdvisory'')) (js ''tollInfo'')) (js ''estimatedPrice'') of
        JArr ps \<Rightarrow> ps
      | _ \<Rightarrow> [])"

definition spec_coerce :: "jsval \<Rightarrow> jsnum" where
  "spec_coerce v = (case number_value v of NaN \<Rightarrow> Fin 0 | n \<Rightarrow> n)"

definition spec_amount :: "jsval \<Rightarrow> jsnum" where
  "spec_amount p =
     num_add (spec_coerce (read_prop p (js ''units'')))
       (div_1e9 (spec_coerce (read_prop p (js ''nanos''))))"

definition spec_is_INR :: "jsval \<Rightarrow> bool" where
  "spec_is_INR p \<longleftrightarrow> read_prop p (js ''currencyCode'') = JStr (js ''INR'')"

definition spec_total :: "jsval \<Rightarrow> jsnum" where
  "spec_total data = foldl num_add (Fin 0) (map spec_amount (filter spec_is_INR (spec_entries data)))"

definition spec_tollAmount :: "jsval \<Rightarrow> jsnum" where
  "spec_tollAmount data = parseFloat_toFixed2 (spec_total data)"

text \<open>
  The shape of a routing response: an object whose \<^verbatim>\<open>routes\<close>, when present, is an array
  whose first route is an object, whose \<^verbatim>\<open>travelAdvisory\<close> and its \<^verbatim>\<open>tollInfo\<close>, when
  present, are objects, and whose \<^verbatim>\<open>estimatedPrice\<close>, when present, is an array of price
  entries. A member is present when it is neither \<^verbatim>\<open>undefined\<close> nor \<^verbatim>\<open>null\<close>. A price
  entry is an object; when it is in INR, its \<^verbatim>\<open>units\<close> and \<^verbatim>\<open>nanos\<close> convert to a primitive
  without an exception.
\<close>

fun is_object :: "jsval \<Rightarrow> bool" where
  "is_object (JObj _) = True"
| "is_object _ = False"

definition absent_or :: "(jsval \<Rightarrow> bool) \<Rightarrow> jsval \<Rightarrow> bool" where
  "absent_or P v \<longleftrightarrow> nullish v \<or> P v"

definition price_shape :: "jsval \<Rightarrow> bool" where
  "price_shape p \<longleftrightarrow>
     is_object p
     \<and> (spec_is_INR p \<longrightarrow>
          \<not> conversion_throws (read_prop p (js ''units''))
          \<and> \<not> conversion_throws (read_prop p (js ''nanos'')))"

fun price_list_shape :: "jsval \<Rightarrow> bool" where
  "price_list_shape (JArr ps) = list_all price_shape ps"
| "price_list_shape _ = False"

definition tollInfo_shape :: "jsval \<Rightarrow> bool" where
  "tollInfo_shape v \<longleftrightarrow>
     is_object v \<and> absent_or price_list_shape (read_prop v (js ''estimatedPrice''))"

definition travelAdvisory_shape :: "jsval \<Rightarrow> bool" where
  "travelAdvisory_shape v \<longleftrightarrow>
     is_object v \<and> absent_or tollInfo_shape (read_prop v (js ''tollInfo''))"

definition route_shape :: "jsval \<Rightarrow> bool" where
  "route_shape v \<longleftrightarrow>
     is_object v \<and> absent_or travelAdvisory_shape (read_prop v (js ''travelAdvisory''))"

fun routes_shape :: "jsval \<Rightarrow> bool" where
  "routes_shape (JArr []) = True"
| "routes_shape (JArr (r # rs)) = route_shape r"
| "routes_shape _ = False"

definition response_shape :: "jsval \<Rightarrow> bool" where
  "response_shape data \<longleftrightarrow>
     is_object data \<and> absent_or routes_shape (read_prop data (js ''routes''))"

section \<open>Conversion to a string\<close>

text \<open>
  The string a value converts to when the conversion does not throw. How a Number prints
  is the engine's \<^verbatim>\<open>Number::toString\<close>, whose choice of digits ECMA-262 leaves in part to
  the implementation: it is the parameter \<open>numberToString\<close> of everything that prints a
  Number. An array prints its elements separated by commas, \<^verbatim>\<open>null\<close> and \<^verbatim>\<open>undefined\<close> as
  nothing.
\<close>

fun join_comma :: "jsstring list \<Rightarrow> jsstring" where
  "join_comma [] = []"
| "join_comma [s] = s"
| "join_comma (s # t # ts) = s @ 44 # join_comma (t # ts)"

fun string_value :: "(jsnum \<Rightarrow> jsstring) \<Rightarrow> jsval \<Rightarrow> jsstring" where
  "string_value numberToString JUndefined = js ''undefined''"
| "string_value numberToString JNull = js ''null''"
| "string_value numberToString (JBool b) = (if b then js ''true'' else js ''false'')"
| "string_value numberToString (JNum n) = numberToString n"
| "string_value numberToString (JStr s) = s"
| "string_value numberToString (JArr xs) =
     join_comma (map (\<lambda>x. if nullish x then [] else string_value numberToString x) xs)"
| "string_value numberToString (JObj _) = js ''[object Object]''"

text \<open>\<^verbatim>\<open>${v}\<close> in a template literal.\<close>

definition to_string :: "(jsnum \<Rightarrow> jsstring) \<Rightarrow> jsval \<Rightarrow> thrown + jsstring" where
  "to_string numberToString v =
     (if conversion_throws v then Inl TypeError else Inr (string_value numberToString v))"

text \<open>
  A template literal: its parts from left to right, each a fixed text or the conversion of
  a value, up to the first that throws.
\<close>

fun literal :: "(thrown + jsstring) list \<Rightarrow> thrown + jsstring" where
  "literal [] = Inr []"
| "literal (Inl e # parts) = Inl e"
| "literal (Inr s # parts) =
     (case literal parts of Inl e \<Rightarrow> Inl e | Inr t \<Rightarrow> Inr (s @ t))"

text \<open>The decimal digits of a natural number.\<close>

fun decimal :: "nat \<Rightarrow> jsstring" where
  "decimal n = (if n < 10 then [48 + n] else decimal (n div 10) @ [48 + n mod 10])"

declare decimal.simps [simp del]

text \<open>
  \<^verbatim>\<open>x.toFixed(2)\<close> on a Number: the names of NaN and the infinities, \<^verbatim>\<open>String(x)\<close> for a
  magnitude of \<open>10 ^ 21\<close> or more, and otherwise the sign, the digits of the integer \<open>n\<close>
  nearest to a hundred times the magnitude, and a point before the last two of them.
\<close>

definition fixed_digits :: "nat \<Rightarrow> jsstring" where
  "fixed_digits n = decimal (n div 100) @ [46, 48 + n mod 100 div 10, 48 + n mod 10]"

fun toFixed2 :: "(jsnum \<Rightarrow> jsstring) \<Rightarrow> jsnum \<Rightarrow> jsstring" where
  "toFixed2 numberToString NaN = js ''NaN''"
| "toFixed2 numberToString PInf = js ''Infinity''"
| "toFixed2 numberToString NInf = js ''-Infinity''"
| "toFixed2 numberToString (Fin q) =
     (if 10 ^ 21 \<le> \<bar>q\<bar> then numberToString (Fin q)
      else (if q < 0 then [45] else []) @ fixed_digits (nat (hundredths \<bar>q\<bar>)))"

section \<open>The booking message\<close>

text \<open>\<^verbatim>\<open>v || 'text'\<close>.\<close>

definition or_default :: "jsval \<Rightarrow> string \<Rightarrow> jsval" where
  "or_default v d = (if truthy v then v else JStr (js d))"

text \<open>
  \<^verbatim>\<open>bookingDetails.fareDetails?.total?.toFixed(2)\<close>: \<^verbatim>\<open>undefined\<close> when \<^verbatim>\<open>fareDetails\<close> or
  \<^verbatim>\<open>total\<close> is \<^verbatim>\<open>null\<close> or \<^verbatim>\<open>undefined\<close>; otherwise the call of \<^verbatim>\<open>total.toFixed\<close>, which
  only a Number has.
\<close>

definition fare_chain :: "(jsnum \<Rightarrow> jsstring) \<Rightarrow> jsval \<Rightarrow> thrown + jsval" where
  "fare_chain numberToString bookingDetails =
     (let fareDetails = read_prop bookingDetails (js ''fareDetails'')
      in if nullish fareDetails then Inr JUndefined
         else (let total = read_prop fareDetails (js ''total'')
               in if nullish total then Inr JUndefined
                  else (case total of
                          JNum n \<Rightarrow> Inr (JStr (toFixed2 numberToString n))
                        | _ \<Rightarrow> Inl TypeError)))"

text \<open>
  The template literal of lines 140 to 149. Each line of the literal starts with a line
  feed and twelve spaces; the last line is a line feed and eight spaces. The source file
  holds the three characters U+00E2, U+201A and U+00B9 before the fare. The fare
  expression is evaluated in its place, after the five fields before it.
\<close>

definition line_start :: jsstring where
  "line_start = 10 # replicate 12 32"

definition field :: "(jsnum \<Rightarrow> jsstring) \<Rightarrow> jsval \<Rightarrow> string \<Rightarrow> string \<Rightarrow> thrown + jsstring"
  where
  "field numberToString bookingDetails name d =
     to_string numberToString (or_default (read_prop bookingDetails (js name)) d)"

definition fare_text :: "(jsnum \<Rightarrow> jsstring) \<Rightarrow> jsval \<Rightarrow> thrown + jsstring" where
  "fare_text numberToString bookingDetails =
     (case fare_chain numberToString bookingDetails of
        Inl e \<Rightarrow> Inl e
      | Inr v \<Rightarrow> to_string numberToString (or_default v ''N/A''))"

definition template :: "(jsnum \<Rightarrow> jsstring) \<Rightarrow> jsval \<Rightarrow> thrown + jsstring" where
  "template numberToString bookingDetails =
     literal
       [Inr (line_start @ js ''Fasttrack Drop Taxi Booking Confirmed!''
             @ line_start @ js ''ID: ''),
        field numberToString bookingDetails ''bookingId'' ''N/A'',
        Inr (line_start @ js ''From: ''),
        field numberToString bookingDetails ''pickup'' ''N/A'',
        Inr (line_start @ js ''To: ''),
        field numberToString bookingDetails ''dropoff'' ''N/A'',
        Inr (line_start @ js ''Date: ''),
        field numberToString bookingDetails ''pickupDate'' ''N/A'',
        Inr (js '' ''),
        field numberToString bookingDetails ''pickupTime'' ''N/A'',
        Inr (line_start @ js ''Fare: '' @ [226, 8218, 185]),
        fare_text numberToString bookingDetails,
        Inr (line_start @ js ''Driver: ''),
        field numberToString bookingDetails ''driverName'' ''Assigned Soon'',
        Inr (js '' (''),
        field numberToString bookingDetails ''driverVehicle'' ''N/A'',
        Inr (js '')'' @ line_start @ js ''Download App for updates!''
             @ 10 # replicate 8 32)]"

text \<open>
  \<^verbatim>\<open>.replace(/^\s*\n|\n\s*$/g, '')\<close>. At the start of the string the first alternative
  matches the leading white space up to its last line feed. After that only the second
  alternative can match, at the first line feed that has nothing but white space after it,
  and it takes the rest of the string.
\<close>

definition cut_lead :: "jsstring \<Rightarrow> jsstring" where
  "cut_lead s =
     (let lead = takeWhile is_white s
      in if 10 \<in> set lead
         then drop (length lead - length (takeWhile (\<lambda>c. c \<noteq> 10) (rev lead))) s
         else s)"

fun cut_tail :: "jsstring \<Rightarrow> jsstring" where
  "cut_tail [] = []"
| "cut_tail (c # cs) = (if c = 10 \<and> list_all is_white cs then [] else c # cut_tail cs)"

text \<open>\<^verbatim>\<open>.replace(/\s+/g, ' ')\<close>: every maximal run of white space becomes one space.\<close>

function collapse_ws :: "jsstring \<Rightarrow> jsstring" where
  "collapse_ws [] = []"
| "collapse_ws (c # cs) =
     (if is_white c then 32 # collapse_ws (dropWhile is_white cs) else c # collapse_ws cs)"
  by pat_completeness auto
termination
  by (relation "measure length") (auto simp: length_dropWhile_le less_Suc_eq_le)

definition messageBody :: "(jsnum \<Rightarrow> jsstring) \<Rightarrow> jsval \<Rightarrow> thrown + jsstring" where
  "messageBody numberToString bookingDetails =
     (case template numberToString bookingDetails of
        Inl e \<Rightarrow> Inl e
      | Inr t \<Rightarrow> Inr (trim (collapse_ws (cut_tail (cut_lead t)))))"

section \<open>The booking-SMS handler\<close>

text \<open>
  The message that a \<^verbatim>\<open>catch\<close> block builds from the status and the message of the error
  it caught, \<^verbatim>\<open>`Twilio API Error (${error.status}): ${error.message}`\<close>.
\<close>

definition provider_error_text :: "(jsnum \<Rightarrow> jsstring) \<Rightarrow> rejection \<Rightarrow> thrown + jsstring"
  where
  "provider_error_text numberToString r =
     literal [Inr (js ''Twilio API Error (''), to_string numberToString (rej_status r),
              Inr (js ''): ''), to_string numberToString (rej_message r)]"

text \<open>
  The message of the 500 response of the \<^verbatim>\<open>catch\<close> block: the default, or the provider's
  status and message when the caught error has both. An engine error has no \<^verbatim>\<open>status\<close>.
  A conversion that throws here throws out of the handler.
\<close>

definition booking_error_message :: "(jsnum \<Rightarrow> jsstring) \<Rightarrow> thrown \<Rightarrow> thrown + jsstring"
  where
  "booking_error_message numberToString error =
     (case error of
        TypeError \<Rightarrow> Inr (js ''Failed to send booking confirmation SMS.'')
      | Rejected r \<Rightarrow>
          if truthy (rej_status r) \<and> truthy (rej_message r)
          then provider_error_text numberToString r
          else Inr (js ''Failed to send booking confirmation SMS.''))"

text \<open>
  The body of the \<^verbatim>\<open>try\<close> block: the message, the log line of line 151 that prints
  \<^verbatim>\<open>phoneNumber\<close> in a template literal, the normaliser, the two checks and the provider's
  call. \<open>messages_create\<close> is the provider's \<^verbatim>\<open>twilioClient.messages.create\<close>, from the
  body, the destination and the sender to \<open>None\<close> when the promise resolves and to the
  rejection otherwise.
\<close>

definition booking_try ::
  "(jsnum \<Rightarrow> jsstring) \<Rightarrow> jsval \<Rightarrow> (jsstring \<Rightarrow> jsval \<Rightarrow> jsval \<Rightarrow> rejection option)
   \<Rightarrow> jsval \<Rightarrow> jsval \<Rightarrow> thrown + response" where
  "booking_try numberToString TWILIO_PHONE_NUMBER messages_create phoneNumber bookingDetails =
     (case messageBody numberToString bookingDetails of
        Inl e \<Rightarrow> Inl e
      | Inr smsBody \<Rightarrow>
          (case to_string numberToString phoneNumber of
             Inl e \<Rightarrow> Inl e
           | Inr logged \<Rightarrow>
               (case formatPhoneNumberForTwilio phoneNumber of
                  Inl e \<Rightarrow> Inl e
                | Inr formattedPhoneNumber \<Rightarrow>
                    if \<not> truthy formattedPhoneNumber
                    then Inr \<lparr>status = 400,
                              body = message_body (js ''Invalid phone number format for SMS.'')\<rparr>
                    else if \<not> truthy TWILIO_PHONE_NUMBER
                    then Inr \<lparr>status = 500,
                              body = message_body (js ''Server configuration error: Twilio phone number for sending SMS is missing.'')\<rparr>
                    else (case messages_create smsBody formattedPhoneNumber TWILIO_PHONE_NUMBER of
                            Some r \<Rightarrow> Inl (Rejected r)
                          | None \<Rightarrow>
                              Inr \<lparr>status = 200,
                                   body = message_body (js ''Booking confirmation SMS sent.'')\<rparr>))))"

text \<open>
  The handler. Its result is the response it sends, or \<open>Inl\<close> when an exception leaves it
  and it sends none.
\<close>

definition send_booking_sms ::
  "(jsnum \<Rightarrow> jsstring) \<Rightarrow> jsval \<Rightarrow> (jsstring \<Rightarrow> jsval \<Rightarrow> jsval \<Rightarrow> rejection option)
   \<Rightarrow> jsval \<Rightarrow> jsval \<Rightarrow> thrown + response" where
  "send_booking_sms numberToString TWILIO_PHONE_NUMBER messages_create phoneNumber bookingDetails =
     (if \<not> truthy phoneNumber \<or> \<not> truthy bookingDetails
      then Inr \<lparr>status = 400,
                body = message_body (js ''Phone number and booking details are required.'')\<rparr>
      else (case booking_try numberToString TWILIO_PHONE_NUMBER messages_create phoneNumber
                   bookingDetails of
              Inl error \<Rightarrow>
                (case booking_error_message numberToString error of
                   Inl e \<Rightarrow> Inl e
                 | Inr m \<Rightarrow> Inr \<lparr>status = 500, body = message_body m\<rparr>)
            | Inr r \<Rightarrow> Inr r))"

text \<open>A string is single-spaced when no space follows a space.\<close>

fun single_spaced :: "jsstring \<Rightarrow> bool" where
  "single_spaced (a # b # cs) \<longleftrightarrow> \<not> (a = 32 \<and> b = 32) \<and> single_spaced (b # cs)"
| "single_spaced _ \<longleftrightarrow> True"

section \<open>The verify-OTP handler\<close>

text \<open>
  \<open>verificationChecks_create\<close> is the provider's verification check, from the number and
  the code to the check it resolves with, of which the handler reads the \<^verbatim>\<open>status\<close>, or to
  the rejection.

  The message of the 500 response of the \<^verbatim>\<open>catch\<close> block: the provider's status and
  message when the caught error has both, its message when it is an \<^verbatim>\<open>Error\<close>, and the
  default otherwise. An engine error is an \<^verbatim>\<open>Error\<close> without a \<^verbatim>\<open>status\<close>, and its message
  is the engine's own text, the parameter \<open>typeErrorMessage\<close>. A conversion that throws
  here throws out of the handler.
\<close>

record verification_check =
  vc_status :: jsval

definition otp_error_message ::
  "(jsnum \<Rightarrow> jsstring) \<Rightarrow> jsstring \<Rightarrow> thrown \<Rightarrow> thrown + jsstring" where
  "otp_error_message numberToString typeErrorMessage error =
     (case error of
        TypeError \<Rightarrow> Inr (js ''Server Error: '' @ typeErrorMessage)
      | Rejected r \<Rightarrow>
          if truthy (rej_status r) \<and> truthy (rej_message r)
          then provider_error_text numberToString r
          else if rej_is_Error r
          then literal [Inr (js ''Server Error: ''), to_string numberToString (rej_message r)]
          else Inr (js ''Verification failed. Please try again.''))"

text \<open>
  The body of the \<^verbatim>\<open>try\<close> block. Its first statement, line 105, logs a template literal
  that prints the number and \<^verbatim>\<open>otpCode\<close>; the provider is called after it.
\<close>

definition verify_try ::
  "(jsnum \<Rightarrow> jsstring) \<Rightarrow> (jsval \<Rightarrow> jsval \<Rightarrow> rejection + verification_check)
   \<Rightarrow> jsval \<Rightarrow> jsval \<Rightarrow> thrown + response" where
  "verify_try numberToString verificationChecks_create phoneNumber otpCode =
     (case literal [Inr (js ''Attempting to verify OTP for: ''),
                    to_string numberToString phoneNumber,
                    Inr (js '' with code: ''), to_string numberToString otpCode] of
        Inl e \<Rightarrow> Inl e
      | Inr logged \<Rightarrow>
          (case verificationChecks_create phoneNumber otpCode of
             Inl r \<Rightarrow> Inl (Rejected r)
           | Inr verificationCheck \<Rightarrow>
               if vc_status verificationCheck = JStr (js ''approved'')
               then Inr \<lparr>status = 200,
                         body = JObj [(js ''message'', JStr (js ''OTP verified successfully!'')),
                                      (js ''status'', JStr (js ''approved''))]\<rparr>
               else Inr \<lparr>status = 400,
                         body = JObj [(js ''message'', JStr (js ''Invalid OTP. Please try again.'')),
                                      (js ''status'', vc_status verificationCheck)]\<rparr>))"

text \<open>
  The handler. The normaliser runs before the \<^verbatim>\<open>try\<close> block, so what it throws leaves
  the handler: the result is then \<open>Inl\<close>, as it is when the \<^verbatim>\<open>catch\<close> block throws.
\<close>

definition verify_otp ::
  "(jsnum \<Rightarrow> jsstring) \<Rightarrow> jsstring \<Rightarrow> (jsval \<Rightarrow> jsval \<Rightarrow> rejection + verification_check)
   \<Rightarrow> jsval \<Rightarrow> jsval \<Rightarrow> thrown + response" where
  "verify_otp numberToString typeErrorMessage verificationChecks_create number otpCode =
     (case formatPhoneNumberForTwilio number of
        Inl e \<Rightarrow> Inl e
      | Inr phoneNumber \<Rightarrow>
          if \<not> truthy phoneNumber \<or> \<not> truthy otpCode
          then Inr \<lparr>status = 400,
                    body = message_body (js ''Phone number and OTP code are required.'')\<rparr>
          else (case verify_try numberToString verificationChecks_create phoneNumber otpCode of
                  Inr r \<Rightarrow> Inr r
                | Inl error \<Rightarrow>
                    (case otp_error_message numberToString typeErrorMessage error of
                       Inl e \<Rightarrow> Inl e
                     | Inr m \<Rightarrow> Inr \<lparr>status = 500, body = message_body m\<rparr>)))"

text \<open>
  A routing response whose first route carries the given \<^verbatim>\<open>estimatedPrice\<close>, for the
  examples below.
\<close>

abbreviation routing_response :: "jsval \<Rightarrow> jsval" where
  "routing_response estimatedPrice \<equiv>
     JObj [(js ''routes'', JArr [JObj [(js ''travelAdvisory'',
       JObj [(js ''tollInfo'', JObj [(js ''estimatedPrice'', estimatedPrice)])])]])]"

text \<open>
  For the examples of the verify-OTP handler: a printer of Numbers that is
  \<^verbatim>\<open>Number::toString\<close> on NaN, the infinities and the integers below \<open>10 ^ 21\<close> in
  magnitude, a provider that approves every check, and a provider that rejects every
  check with an error whose \<^verbatim>\<open>status\<close> is the object \<^verbatim>\<open>{"toString": 1}\<close>.
\<close>

definition integer_toString :: "jsnum \<Rightarrow> jsstring" where
  "integer_toString n =
     (case n of
        NaN \<Rightarrow> js ''NaN''
      | PInf \<Rightarrow> js ''Infinity''
      | NInf \<Rightarrow> js ''-Infinity''
      | Fin q \<Rightarrow> (if q < 0 then [45] else []) @ decimal (nat \<lfloor>\<bar>q\<bar>\<rfloor>))"

definition approving_provider :: "jsval \<Rightarrow> jsval \<Rightarrow> rejection + verification_check" where
  "approving_provider phoneNumber otpCode = Inr \<lparr>vc_status = JStr (js ''approved'')\<rparr>"

definition rejecting_provider :: "jsval \<Rightarrow> jsval \<Rightarrow> rejection + verification_check" where
  "rejecting_provider phoneNumber otpCode =
     Inl \<lparr>rej_status = JObj [(js ''toString'', JNum (Fin 1))],
          rej_message = JStr (js ''rejected''), rej_is_Error = True\<rparr>"

section \<open>Properties of the phone-number normaliser\<close>

lemmas normaliser_eval =
  formatPhoneNumberForTwilio_def js_def kept_by_cleaning_def is_digit_def plus_sign_def

text \<open>
  Claim C8. The five test vectors of the normaliser: a ten-digit number gets \<^verbatim>\<open>+91\<close>, a
  number with a leading \<^verbatim>\<open>+\<close> is returned as it is, the empty string and \<^verbatim>\<open>null\<close> give
  \<^verbatim>\<open>null\<close>, and punctuation inside a number is removed.
\<close>

theorem normalize_test_vectors:
  "formatPhoneNumberForTwilio (JStr (js ''9876543210'')) = Inr (JStr (js ''+919876543210''))
   \<and> formatPhoneNumberForTwilio (JStr (js ''+19876543210'')) = Inr (JStr (js ''+19876543210''))
   \<and> formatPhoneNumberForTwilio (JStr []) = Inr JNull
   \<and> formatPhoneNumberForTwilio JNull = Inr JNull
   \<and> formatPhoneNumberForTwilio (JStr (js ''98-765 43210'')) = Inr (JStr (js ''+919876543210''))"
  by (simp add: normaliser_eval)

text \<open>
  Claim C2. The claim wants no \<^verbatim>\<open>+\<close> after the first character of the output. The
  regular expression keeps every \<^verbatim>\<open>+\<close>, not only a leading one: the input
  \<^verbatim>\<open>+91+9876543210\<close> comes back unchanged, with a \<^verbatim>\<open>+\<close> at its fourth place.
\<close>

theorem normalize_keeps_inner_plus:
  "formatPhoneNumberForTwilio (JStr (js ''+91+9876543210'')) = Inr (JStr (js ''+91+9876543210''))"
  by (simp add: normaliser_eval)

text \<open>
  What does hold of the output for a non-empty string: it starts with \<^verbatim>\<open>+\<close>, and each of
  its characters is a digit or a \<^verbatim>\<open>+\<close>.
\<close>

lemma normalised_characters:
  assumes "s \<noteq> []"
  shows "\<exists>t. formatPhoneNumberForTwilio (JStr s) = Inr (JStr t) \<and> startsWith_plus t
           \<and> (\<forall>c \<in> set t. is_digit c \<or> c = plus_sign)"
proof (cases "startsWith_plus (filter kept_by_cleaning s)")
  case True
  with assms show ?thesis
    by (auto simp: formatPhoneNumberForTwilio_def kept_by_cleaning_def)
next
  case False
  with assms show ?thesis
    by (auto simp: formatPhoneNumberForTwilio_def js_def plus_sign_def kept_by_cleaning_def
        is_digit_def)
qed

section \<open>Evaluating the arithmetic\<close>

lemma floor_rat_numeral_div: "\<lfloor>numeral a / numeral b :: rat\<rfloor> = numeral a div numeral b"
  by (metis floor_divide_of_int_eq of_int_numeral)

lemma floor_rat_one_div: "\<lfloor>1 / numeral b :: rat\<rfloor> = 1 div numeral b"
  by (metis floor_divide_of_int_eq of_int_numeral of_int_1)

lemma rd_zero: "rd 0 = Fin 0"
  by (simp add: rd_def)

lemma rd_half: "rd (1 / 2) = Fin (1 / 2)"
  apply (simp only: rd_def Let_def)
  apply (simp add: ilog2_def bit_length.simps floor_rat_numeral_div floor_rat_one_div pow2_def)
  apply (simp add: pow2_def round_half_even_def floor_rat_numeral_div floor_rat_one_div)
  done

lemma rd_120: "rd 120 = Fin 120"
  apply (simp only: rd_def Let_def)
  apply (simp add: ilog2_def bit_length.simps floor_rat_numeral_div floor_rat_one_div pow2_def)
  apply (simp add: pow2_def round_half_even_def floor_rat_numeral_div floor_rat_one_div)
  done

lemma rd_5e8: "rd 500000000 = Fin 500000000"
  apply (simp only: rd_def Let_def)
  apply (simp add: ilog2_def bit_length.simps floor_rat_numeral_div floor_rat_one_div pow2_def)
  apply (simp add: pow2_def round_half_even_def floor_rat_numeral_div floor_rat_one_div)
  done

lemma rd_120_half: "rd (241 / 2) = Fin (241 / 2)"
  apply (simp only: rd_def Let_def)
  apply (simp add: ilog2_def bit_length.simps floor_rat_numeral_div floor_rat_one_div)
  apply (simp add: pow2_def round_half_even_def floor_rat_numeral_div floor_rat_one_div)
  done

lemma rd_2: "rd 2 = Fin 2"
  apply (simp only: rd_def Let_def)
  apply (simp add: ilog2_def bit_length.simps floor_rat_numeral_div floor_rat_one_div pow2_def)
  apply (simp add: pow2_def round_half_even_def floor_rat_numeral_div floor_rat_one_div)
  done

lemma rd_2_half: "rd (5 / 2) = Fin (5 / 2)"
  apply (simp only: rd_def Let_def)
  apply (simp add: ilog2_def bit_length.simps floor_rat_numeral_div floor_rat_one_div)
  apply (simp add: pow2_def round_half_even_def floor_rat_numeral_div floor_rat_one_div)
  done

lemma rd_3: "rd 3 = Fin 3"
  apply (simp only: rd_def Let_def)
  apply (simp add: ilog2_def bit_length.simps floor_rat_numeral_div floor_rat_one_div pow2_def)
  apply (simp add: pow2_def round_half_even_def floor_rat_numeral_div floor_rat_one_div)
  done

lemma rd_eighth: "rd (1 / 8) = Fin (1 / 8)"
  apply (simp only: rd_def Let_def)
  apply (simp add: ilog2_def bit_length.simps floor_rat_numeral_div floor_rat_one_div pow2_def)
  apply (simp add: pow2_def round_half_even_def floor_rat_numeral_div floor_rat_one_div)
  done

lemma rd_3_eighth: "rd (25 / 8) = Fin (25 / 8)"
  apply (simp only: rd_def Let_def)
  apply (simp add: ilog2_def bit_length.simps floor_rat_numeral_div floor_rat_one_div)
  apply (simp add: pow2_def round_half_even_def floor_rat_numeral_div floor_rat_one_div)
  done

lemma rd_sum: "rd (989 / 8) = Fin (989 / 8)"
  apply (simp only: rd_def Let_def)
  apply (simp add: ilog2_def bit_length.simps floor_rat_numeral_div floor_rat_one_div)
  apply (simp add: pow2_def round_half_even_def floor_rat_numeral_div floor_rat_one_div)
  done

text \<open>The double nearest to 123.63.\<close>

lemma rd_rounded: "rd (12363 / 100) = Fin (1087460980335575 / 8796093022208)"
  apply (simp only: rd_def Let_def)
  apply (simp add: ilog2_def bit_length.simps floor_rat_numeral_div floor_rat_one_div)
  apply (simp add: pow2_def round_half_even_def floor_rat_numeral_div floor_rat_one_div)
  done

lemmas str_eval = string_to_number_def trim_def is_white_def js_def unsigned_literal_def
  decimal_value_def is_digit_def all_digits_def radix_value_def digit_of_def pow10_def Let_def


section \<open>The toll handler on a response of the documented shape\<close>

lemma rd_not_isNaN: "\<not> isNaN (rd q)"
  by (simp add: rd_def Let_def)

lemma or_zero_spec_coerce: "or_zero (number_value v) = spec_coerce v"
  by (cases "number_value v") (auto simp: or_zero_def spec_coerce_def)

lemma or_zero_not_NaN: "\<not> isNaN (or_zero n)"
  by (cases n) (auto simp: or_zero_def)

lemma get_prop_object: "is_object p \<Longrightarrow> get_prop p k = Inr (read_prop p k)"
  by (cases p) (simp_all add: get_prop_def)

lemma add_price_shape:
  assumes "price_shape p"
  shows "add_price t p = Inr (if spec_is_INR p then num_add t (spec_amount p) else t)"
proof (cases "spec_is_INR p")
  case True
  with assms show ?thesis
    by (simp add: add_price_def price_shape_def get_prop_object spec_is_INR_def
        spec_amount_def to_number_def Let_def or_zero_spec_coerce [symmetric] or_zero_not_NaN)
next
  case False
  with assms show ?thesis
    by (simp add: add_price_def price_shape_def get_prop_object spec_is_INR_def)
qed

lemma forEach_price_shape:
  "list_all price_shape ps \<Longrightarrow>
   forEach_price ps t = Inr (foldl num_add t (map spec_amount (filter spec_is_INR ps)))"
proof (induction ps arbitrary: t)
  case Nil
  then show ?case by simp
next
  case (Cons p ps)
  then show ?case by (simp add: add_price_shape)
qed

lemma price_list_total:
  "price_list_shape ep \<Longrightarrow>
   (case ep of JArr prices \<Rightarrow> forEach_price prices (Fin 0) | _ \<Rightarrow> Inl TypeError) =
   Inr (foldl num_add (Fin 0) (map spec_amount (filter spec_is_INR
        (case ep of JArr ps \<Rightarrow> ps | _ \<Rightarrow> []))))"
  by (cases ep) (simp_all add: forEach_price_shape)

lemma price_list_truthy: "price_list_shape ep \<Longrightarrow> truthy ep"
  by (cases ep) simp_all

lemma is_object_truthy: "is_object v \<Longrightarrow> truthy v"
  by (cases v) simp_all

lemma nullish_iff: "nullish v \<longleftrightarrow> v = JUndefined \<or> v = JNull"
  by (cases v) simp_all

lemma gt_zero_length: "gt_zero (JNum (Fin (of_nat n))) = Inr (0 < n)"
  by (simp add: gt_zero_def to_number_def)

lemma route_total:
  assumes "route_shape r"
  shows "(case get_prop r (js ''travelAdvisory'') of
            Inl e \<Rightarrow> Inl e
          | Inr travelAdvisory \<Rightarrow>
              (let tollInfo = read_prop travelAdvisory (js ''tollInfo'');
                   estimatedPrice = read_prop tollInfo (js ''estimatedPrice'')
               in if truthy travelAdvisory \<and> truthy tollInfo \<and> truthy estimatedPrice
                  then (case estimatedPrice of
                          JArr prices \<Rightarrow> forEach_price prices (Fin 0)
                        | _ \<Rightarrow> Inl TypeError)
                  else Inr (Fin 0))) =
         Inr (foldl num_add (Fin 0) (map spec_amount (filter spec_is_INR
           (case read_prop (read_prop (read_prop r (js ''travelAdvisory'')) (js ''tollInfo''))
                   (js ''estimatedPrice'') of JArr ps \<Rightarrow> ps | _ \<Rightarrow> []))))"
  using assms
  by (auto simp: route_shape_def travelAdvisory_shape_def tollInfo_shape_def absent_or_def
      nullish_iff get_prop_object Let_def price_list_total price_list_truthy is_object_truthy)

lemma calculate_toll_shape:
  assumes "response_shape data"
  shows "calculate_toll data = Inr (spec_total data)"
proof -
  from assms have obj: "is_object data"
    and rs: "nullish (read_prop data (js ''routes'')) \<or> routes_shape (read_prop data (js ''routes''))"
    by (simp_all add: response_shape_def absent_or_def)
  from rs show ?thesis
  proof
    assume "nullish (read_prop data (js ''routes''))"
    then show ?thesis
      by (auto simp: nullish_iff calculate_toll_def get_prop_object [OF obj] spec_total_def
          spec_entries_def)
  next
    assume shape: "routes_shape (read_prop data (js ''routes''))"
    then obtain rs where arr: "read_prop data (js ''routes'') = JArr rs"
      by (cases "read_prop data (js ''routes'')") simp_all
    show ?thesis
    proof (cases rs)
      case Nil
      with arr show ?thesis
        by (simp add: calculate_toll_def get_prop_object [OF obj] spec_total_def
            spec_entries_def gt_zero_def to_number_def)
    next
      case (Cons r rest)
      with shape arr have "route_shape r" by simp
      from route_total [OF this] Cons arr show ?thesis
        by (simp add: calculate_toll_def get_prop_object [OF obj] spec_total_def
            spec_entries_def gt_zero_def to_number_def Let_def)
    qed
  qed
qed

lemma toFixed2_zero: "parseFloat_toFixed2 (Fin 0) = Fin 0"
  by (simp add: hundredths_def floor_rat_one_div rd_def)

lemma toll_amount_alt:
  "toll_amount t = (if isNaN t then Fin 0 else parseFloat_toFixed2 t)"
  by (simp add: toll_amount_def toFixed2_zero del: parseFloat_toFixed2.simps)

lemmas toll_eval = get_tolls_def calculate_toll_def add_price_def get_prop_def lookup_def
  or_zero_def gt_zero_def to_number_def response_ok_def toll_amount_alt

lemmas spec_eval = spec_total_def spec_entries_def spec_is_INR_def spec_amount_def
  spec_coerce_def lookup_def

lemmas shape_eval = response_shape_def route_shape_def travelAdvisory_shape_def
  tollInfo_shape_def price_shape_def spec_is_INR_def absent_or_def lookup_def js_def

section \<open>Claims about the toll handler\<close>

text \<open>
  Claim C1, as amended. Take a successful upstream response of the documented shape: the
  response is an object; its \<^verbatim>\<open>routes\<close> is absent (\<^verbatim>\<open>undefined\<close> or \<^verbatim>\<open>null\<close>) or an array
  that is empty or starts with an object; the \<^verbatim>\<open>travelAdvisory\<close> of that route is absent or
  an object, whose \<^verbatim>\<open>tollInfo\<close> is absent or an object, whose \<^verbatim>\<open>estimatedPrice\<close> is absent or
  an array of objects; and in each INR entry neither \<^verbatim>\<open>units\<close> nor \<^verbatim>\<open>nanos\<close> is an object
  with a member named \<^verbatim>\<open>toString\<close> or an array that holds one. For such a response the
  handler responds 200 with \<^verbatim>\<open>tollAmount\<close> equal to the sum over the INR entries of
  \<^verbatim>\<open>units + nanos / 1_000_000_000\<close>, the pieces coerced to numbers and a piece that is no
  number taken as 0, rounded to two decimal places; when that sum is NaN the amount is 0.
  Entries in another currency add nothing, and an absent part of the path gives 0.
\<close>

theorem get_tolls_total:
  assumes "truthy pickup" and "truthy dropoff" and "response_ok st" and "response_shape data"
  shows "get_tolls pickup dropoff (FetchResponse st (Some data)) =
         toll_response (if isNaN (spec_total data) then Fin 0 else spec_tollAmount data)"
  using assms
  by (simp add: get_tolls_def calculate_toll_shape toll_amount_alt spec_tollAmount_def)

text \<open>
  Three entries: 120.5 in INR, 5 in USD and 3.125 in INR. The sum of the two INR entries is
  123.625, which rounds to 123.63, and the amount is the double nearest to that. A response
  without \<^verbatim>\<open>routes\<close> gives 0.
\<close>

theorem get_tolls_total_witness:
  "get_tolls (JStr (js ''A'')) (JStr (js ''B''))
     (FetchResponse 200 (Some (routing_response
        (JArr [JObj [(js ''currencyCode'', JStr (js ''INR'')),
                     (js ''units'', JStr (js ''120'')),
                     (js ''nanos'', JStr (js ''500000000''))],
               JObj [(js ''currencyCode'', JStr (js ''USD'')),
                     (js ''units'', JStr (js ''5'')),
                     (js ''nanos'', JNum (Fin 0))],
               JObj [(js ''currencyCode'', JStr (js ''INR'')),
                     (js ''units'', JStr (js ''3'')),
                     (js ''nanos'', JNum (Fin 125000000))]])))) =
   toll_response (Fin (1087460980335575 / 8796093022208))
   \<and> rd (12363 / 100) = Fin (1087460980335575 / 8796093022208)
   \<and> get_tolls (JStr (js ''A'')) (JStr (js ''B'')) (FetchResponse 200 (Some (JObj []))) =
     toll_response (Fin 0)"
proof -
  let ?data = "routing_response
        (JArr [JObj [(js ''currencyCode'', JStr (js ''INR'')),
                     (js ''units'', JStr (js ''120'')),
                     (js ''nanos'', JStr (js ''500000000''))],
               JObj [(js ''currencyCode'', JStr (js ''USD'')),
                     (js ''units'', JStr (js ''5'')),
                     (js ''nanos'', JNum (Fin 0))],
               JObj [(js ''currencyCode'', JStr (js ''INR'')),
                     (js ''units'', JStr (js ''3'')),
                     (js ''nanos'', JNum (Fin 125000000))]])"
  have shape: "response_shape ?data"
    by (simp add: shape_eval)
  have total: "spec_total ?data = Fin (989 / 8)"
    by (simp add: spec_eval str_eval rd_120 rd_5e8 rd_half rd_120_half rd_3 rd_eighth
        rd_3_eighth rd_sum)
  have rounded: "spec_tollAmount ?data = Fin (1087460980335575 / 8796093022208)"
    by (simp add: spec_tollAmount_def total hundredths_def floor_rat_numeral_div rd_rounded)
  have "truthy (JStr (js ''A''))" and "truthy (JStr (js ''B''))" and "response_ok 200"
    by (simp_all add: js_def response_ok_def)
  note request = this
  have "response_shape (JObj [])"
    by (simp add: shape_eval)
  from get_tolls_total [OF request this]
  have absent: "get_tolls (JStr (js ''A'')) (JStr (js ''B'')) (FetchResponse 200 (Some (JObj []))) =
     toll_response (Fin 0)"
    by (simp add: spec_tollAmount_def spec_eval toFixed2_zero del: parseFloat_toFixed2.simps)
  from get_tolls_total [OF request shape] total rounded rd_rounded absent show ?thesis
    by simp
qed

text \<open>
  Claim C1 as stated fails in three ways. Two INR entries with units \<^verbatim>\<open>"Infinity"\<close> and
  \<^verbatim>\<open>"-Infinity"\<close> sum to NaN, which rounds to NaN, and the handler answers 0. A price
  entry that is \<^verbatim>\<open>null\<close> makes the read of its \<^verbatim>\<open>currencyCode\<close> throw, and an INR entry
  whose units are the object \<^verbatim>\<open>{"toString": 1}\<close> makes \<^verbatim>\<open>Number\<close> throw: the handler
  answers 500 to both.
\<close>

theorem get_tolls_total_counterexample:
  "get_tolls (JStr (js ''A'')) (JStr (js ''B''))
     (FetchResponse 200 (Some (routing_response
        (JArr [JObj [(js ''currencyCode'', JStr (js ''INR'')),
                     (js ''units'', JStr (js ''Infinity''))],
               JObj [(js ''currencyCode'', JStr (js ''INR'')),
                     (js ''units'', JStr (js ''-Infinity''))]])))) =
   toll_response (Fin 0)
   \<and> spec_tollAmount (routing_response
        (JArr [JObj [(js ''currencyCode'', JStr (js ''INR'')),
                     (js ''units'', JStr (js ''Infinity''))],
               JObj [(js ''currencyCode'', JStr (js ''INR'')),
                     (js ''units'', JStr (js ''-Infinity''))]])) = NaN
   \<and> toll_response (Fin 0) \<noteq> toll_response NaN
   \<and> status (get_tolls (JStr (js ''A'')) (JStr (js ''B''))
        (FetchResponse 200 (Some (routing_response (JArr [JNull]))))) = 500
   \<and> status (get_tolls (JStr (js ''A'')) (JStr (js ''B''))
        (FetchResponse 200 (Some (routing_response
           (JArr [JObj [(js ''currencyCode'', JStr (js ''INR'')),
                        (js ''units'', JObj [(js ''toString'', JNum (Fin 1))])]]))))) = 500"
  by (simp add: toll_eval spec_tollAmount_def spec_eval str_eval rd_zero toll_response_def
      internal_error_def)

text \<open>
  Claim C3, as amended. Take an INR entry whose units are no number after the coercion and
  whose nanos coerce to a Number without an exception. Its units are taken as 0: it adds
  \<^verbatim>\<open>0 + nanos / 1_000_000_000\<close> to the running total, the nanos coerced and taken as 0 when
  they are no number, and the loop goes on to the remaining entries.
\<close>

theorem non_numeric_units_taken_as_zero:
  assumes "read_prop price (js ''currencyCode'') = JStr (js ''INR'')"
    and "to_number (read_prop price (js ''units'')) = Inr NaN"
    and "to_number (read_prop price (js ''nanos'')) = Inr n"
  shows "add_price t price = Inr (num_add t (num_add (Fin 0) (div_1e9 (or_zero n))))
         \<and> forEach_price (price # rest) t =
           forEach_price rest (num_add t (num_add (Fin 0) (div_1e9 (or_zero n))))"
proof -
  from assms(1) have "\<not> nullish price"
    by (cases price) simp_all
  moreover have "or_zero NaN = Fin 0"
    by (simp add: or_zero_def)
  ultimately have "add_price t price = Inr (num_add t (num_add (Fin 0) (div_1e9 (or_zero n))))"
    using assms by (simp add: add_price_def get_prop_def Let_def or_zero_not_NaN)
  then show ?thesis by simp
qed

text \<open>
  An entry with units \<^verbatim>\<open>"abc"\<close> and nanos 500000000 adds 0.5, and the entry of 2 after it
  is added as well.
\<close>

theorem non_numeric_units_taken_as_zero_witness:
  "add_price (Fin 0)
     (JObj [(js ''currencyCode'', JStr (js ''INR'')), (js ''units'', JStr (js ''abc'')),
            (js ''nanos'', JNum (Fin 500000000))]) = Inr (Fin (1 / 2))
   \<and> forEach_price
       [JObj [(js ''currencyCode'', JStr (js ''INR'')), (js ''units'', JStr (js ''abc'')),
              (js ''nanos'', JNum (Fin 500000000))],
        JObj [(js ''currencyCode'', JStr (js ''INR'')), (js ''units'', JNum (Fin 2))]]
       (Fin 0) = Inr (Fin (5 / 2))"
proof -
  let ?price = "JObj [(js ''currencyCode'', JStr (js ''INR'')), (js ''units'', JStr (js ''abc'')),
            (js ''nanos'', JNum (Fin 500000000))]"
  let ?next = "JObj [(js ''currencyCode'', JStr (js ''INR'')), (js ''units'', JNum (Fin 2))]"
  have cur: "read_prop ?price (js ''currencyCode'') = JStr (js ''INR'')"
    by (simp add: lookup_def js_def)
  have units: "to_number (read_prop ?price (js ''units'')) = Inr NaN"
    by (simp add: lookup_def to_number_def str_eval)
  have nanos: "to_number (read_prop ?price (js ''nanos'')) = Inr (Fin 500000000)"
    by (simp add: lookup_def to_number_def js_def)
  have added: "num_add (Fin 0) (num_add (Fin 0) (div_1e9 (or_zero (Fin 500000000)))) = Fin (1 / 2)"
    by (simp add: or_zero_def rd_half)
  have after: "forEach_price [?next] (Fin (1 / 2)) = Inr (Fin (5 / 2))"
    by (simp add: add_price_def get_prop_def lookup_def to_number_def or_zero_def js_def
        rd_zero rd_2 rd_2_half)
  from non_numeric_units_taken_as_zero [OF cur units nanos, of "Fin 0" "[?next]"] added after
  show ?thesis
    by simp
qed

text \<open>
  Claim C3 as stated fails in two ways. An INR entry with units \<^verbatim>\<open>"abc"\<close> and nanos
  500000000 is not skipped: its units are no number, and it adds 0.5 to the total, which
  the handler reports. And with the same units and the nanos \<^verbatim>\<open>{"toString": 1}\<close> the
  coercion of the nanos throws: the entry after it is not processed, and the handler
  answers 500.
\<close>

theorem non_numeric_units_counterexample:
  "to_number (JStr (js ''abc'')) = Inr NaN
   \<and> get_tolls (JStr (js ''A'')) (JStr (js ''B''))
     (FetchResponse 200 (Some (routing_response
        (JArr [JObj [(js ''currencyCode'', JStr (js ''INR'')),
                     (js ''units'', JStr (js ''abc'')),
                     (js ''nanos'', JNum (Fin 500000000))]])))) =
   toll_response (Fin (1 / 2))
   \<and> status (get_tolls (JStr (js ''A'')) (JStr (js ''B''))
     (FetchResponse 200 (Some (routing_response
        (JArr [JObj [(js ''currencyCode'', JStr (js ''INR'')),
                     (js ''units'', JStr (js ''abc'')),
                     (js ''nanos'', JObj [(js ''toString'', JNum (Fin 1))])],
               JObj [(js ''currencyCode'', JStr (js ''INR'')),
                     (js ''units'', JNum (Fin 2))]]))))) = 500"
proof -
  have "parseFloat_toFixed2 (Fin (1 / 2)) = Fin (1 / 2)"
    by (simp add: hundredths_def floor_rat_numeral_div rd_half)
  then show ?thesis
    by (simp add: toll_eval str_eval rd_half toll_response_def internal_error_def
        del: parseFloat_toFixed2.simps)
qed

text \<open>
  Claim C4, as amended. Before the rounding, a total that is NaN is set to 0; hence the
  \<^verbatim>\<open>tollAmount\<close> of every 200 response is a Number other than NaN. It can be an infinity.
\<close>

theorem tollAmount_never_NaN:
  "toll_amount NaN = Fin 0
   \<and> (status (get_tolls pickup dropoff googleResponse) = 200 \<longrightarrow>
      (\<exists>x. get_tolls pickup dropoff googleResponse = toll_response x \<and> \<not> isNaN x))"
proof -
  have amount: "\<not> isNaN (toll_amount t)" for t
    by (cases t) (simp_all add: toll_amount_alt rd_not_isNaN)
  have "\<exists>x. get_tolls pickup dropoff googleResponse = toll_response x \<and> \<not> isNaN x"
    if "status (get_tolls pickup dropoff googleResponse) = 200"
    using that amount
    by (auto simp: get_tolls_def internal_error_def response_ok_def Let_def
        split: if_splits upstream.splits option.splits sum.splits)
  then show ?thesis
    by (simp add: toll_amount_alt)
qed

text \<open>
  Two INR entries with units \<^verbatim>\<open>"Infinity"\<close> and \<^verbatim>\<open>"-Infinity"\<close>: the total is NaN before the
  guard, and the response is 200 with the amount 0.
\<close>

theorem tollAmount_never_NaN_witness:
  "status (get_tolls (JStr (js ''A'')) (JStr (js ''B''))
     (FetchResponse 200 (Some (routing_response
        (JArr [JObj [(js ''currencyCode'', JStr (js ''INR'')),
                     (js ''units'', JStr (js ''Infinity''))],
               JObj [(js ''currencyCode'', JStr (js ''INR'')),
                     (js ''units'', JStr (js ''-Infinity''))]]))))) = 200
   \<and> calculate_toll (routing_response
        (JArr [JObj [(js ''currencyCode'', JStr (js ''INR'')),
                     (js ''units'', JStr (js ''Infinity''))],
               JObj [(js ''currencyCode'', JStr (js ''INR'')),
                     (js ''units'', JStr (js ''-Infinity''))]])) = Inr NaN
   \<and> (\<exists>x. get_tolls (JStr (js ''A'')) (JStr (js ''B''))
     (FetchResponse 200 (Some (routing_response
        (JArr [JObj [(js ''currencyCode'', JStr (js ''INR'')),
                     (js ''units'', JStr (js ''Infinity''))],
               JObj [(js ''currencyCode'', JStr (js ''INR'')),
                     (js ''units'', JStr (js ''-Infinity''))]]))))
            = toll_response x \<and> \<not> isNaN x)"
proof -
  let ?data = "routing_response
        (JArr [JObj [(js ''currencyCode'', JStr (js ''INR'')),
                     (js ''units'', JStr (js ''Infinity''))],
               JObj [(js ''currencyCode'', JStr (js ''INR'')),
                     (js ''units'', JStr (js ''-Infinity''))]])"
  have total: "calculate_toll ?data = Inr NaN"
    by (simp add: toll_eval str_eval rd_zero)
  have "truthy (JStr (js ''A''))" and "truthy (JStr (js ''B''))"
    by (simp_all add: js_def)
  then have "status (get_tolls (JStr (js ''A'')) (JStr (js ''B'')) (FetchResponse 200 (Some ?data))) = 200"
    by (simp add: get_tolls_def total response_ok_def toll_response_def)
  with tollAmount_never_NaN [of "JStr (js ''A'')" "JStr (js ''B'')" "FetchResponse 200 (Some ?data)"]
    total
  show ?thesis by blast
qed

text \<open>
  Claim C4 as stated fails: the guard tests for NaN, not for finiteness. An INR entry with
  units \<^verbatim>\<open>"Infinity"\<close> gives a 200 response whose \<^verbatim>\<open>tollAmount\<close> is positive infinity.
\<close>

theorem tollAmount_infinite_counterexample:
  "get_tolls (JStr (js ''A'')) (JStr (js ''B''))
     (FetchResponse 200 (Some (routing_response
        (JArr [JObj [(js ''currencyCode'', JStr (js ''INR'')),
                     (js ''units'', JStr (js ''Infinity''))]])))) =
   toll_response PInf"
  by (simp add: toll_eval str_eval rd_zero toll_response_def)

text \<open>
  Claim C5. The claim wants the upstream status forwarded for every upstream error
  response. An error response whose body is the JSON value \<^verbatim>\<open>null\<close> is answered with 500:
  the read of \<^verbatim>\<open>errorData.error\<close> throws, and the outer \<^verbatim>\<open>catch\<close> takes over.
\<close>

theorem upstream_null_error_body:
  "get_tolls (JStr (js ''A'')) (JStr (js ''B'')) (FetchResponse 404 (Some JNull)) = internal_error
   \<and> status internal_error = 500"
  by (simp add: toll_eval error_details_def internal_error_def js_def)

theorem upstream_null_error_body_witness:
  "status (get_tolls (JStr (js ''A'')) (JStr (js ''B'')) (FetchResponse 404 (Some JNull))) = 500"
  using upstream_null_error_body by simp

text \<open>For every other error body, and for one that is no JSON, the status is forwarded.\<close>

lemma upstream_status_forwarded:
  assumes "truthy pickup" and "truthy dropoff" and "\<not> response_ok st"
    and "parsed \<noteq> Some JNull" and "parsed \<noteq> Some JUndefined"
  shows "status (get_tolls pickup dropoff (FetchResponse st parsed)) = st"
proof (cases parsed)
  case None
  with assms show ?thesis
    by (simp add: get_tolls_def error_details_def get_prop_def Let_def)
next
  case (Some v)
  with assms have "\<not> nullish v"
    by (cases v) simp_all
  with Some assms show ?thesis
    by (simp add: get_tolls_def error_details_def get_prop_def Let_def)
qed


section \<open>Claims about the normaliser inside the handlers\<close>

lemma normalised_string:
  assumes "s \<noteq> []"
  shows "\<exists>t. formatPhoneNumberForTwilio (JStr s) = Inr (JStr t) \<and> t \<noteq> [] \<and> startsWith_plus t"
proof (cases "startsWith_plus (filter kept_by_cleaning s)")
  case True
  then have "filter kept_by_cleaning s \<noteq> []"
    by (cases "filter kept_by_cleaning s") simp_all
  with True assms show ?thesis
    by (simp add: formatPhoneNumberForTwilio_def)
next
  case False
  with assms show ?thesis
    by (simp add: formatPhoneNumberForTwilio_def js_def plus_sign_def)
qed

lemma normalised_truthy:
  assumes "truthy (JStr s)"
  shows "\<exists>t. formatPhoneNumberForTwilio (JStr s) = Inr (JStr t) \<and> truthy (JStr t)"
  using normalised_string [of s] assms by auto

lemma normalised_printable:
  "formatPhoneNumberForTwilio number = Inr phoneNumber \<Longrightarrow> \<not> conversion_throws phoneNumber"
  by (cases number) (auto simp: formatPhoneNumberForTwilio_def Let_def split: if_splits)

text \<open>
  Claim C9, as amended. For every non-empty string the normaliser returns a non-empty
  string, never \<^verbatim>\<open>null\<close>; a string with neither a digit nor a \<^verbatim>\<open>+\<close> becomes \<^verbatim>\<open>+91\<close>. Hence,
  for a string \<^verbatim>\<open>phoneNumber\<close>, the booking-SMS handler never gives the 400 response for an
  invalid phone-number format.
\<close>

theorem invalid_format_unreachable:
  "(s \<noteq> [] \<longrightarrow>
      (\<exists>t. formatPhoneNumberForTwilio (JStr s) = Inr (JStr t) \<and> truthy (JStr t)))
   \<and> (s \<noteq> [] \<and> filter kept_by_cleaning s = [] \<longrightarrow>
      formatPhoneNumberForTwilio (JStr s) = Inr (JStr (js ''+91'')))
   \<and> send_booking_sms numberToString TWILIO_PHONE_NUMBER messages_create (JStr s) bookingDetails
      \<noteq> Inr \<lparr>status = 400, body = message_body (js ''Invalid phone number format for SMS.'')\<rparr>"
proof (intro conjI impI)
  assume "s \<noteq> []"
  then show "\<exists>t. formatPhoneNumberForTwilio (JStr s) = Inr (JStr t) \<and> truthy (JStr t)"
    using normalised_truthy [of s] by simp
next
  assume "s \<noteq> [] \<and> filter kept_by_cleaning s = []"
  then show "formatPhoneNumberForTwilio (JStr s) = Inr (JStr (js ''+91''))"
    by (simp add: formatPhoneNumberForTwilio_def)
next
  show "send_booking_sms numberToString TWILIO_PHONE_NUMBER messages_create (JStr s) bookingDetails
      \<noteq> Inr \<lparr>status = 400, body = message_body (js ''Invalid phone number format for SMS.'')\<rparr>"
  proof (cases "truthy (JStr s) \<and> truthy bookingDetails")
    case False
    then show ?thesis
      by (auto simp: send_booking_sms_def message_body_def js_def)
  next
    case True
    then obtain t where "formatPhoneNumberForTwilio (JStr s) = Inr (JStr t)" and "truthy (JStr t)"
      using normalised_truthy [of s] by blast
    with True show ?thesis
      by (auto simp: send_booking_sms_def booking_try_def split: sum.splits option.splits)
  qed
qed

theorem invalid_format_unreachable_witness:
  "formatPhoneNumberForTwilio (JStr (js ''abc'')) = Inr (JStr (js ''+91''))
   \<and> (\<exists>t. formatPhoneNumberForTwilio (JStr (js ''abc'')) = Inr (JStr t) \<and> truthy (JStr t))
   \<and> (\<forall>numberToString.
        send_booking_sms numberToString (JStr (js ''+15550100'')) (\<lambda>b t f. None)
          (JStr (js ''abc'')) (JObj [])
        \<noteq> Inr \<lparr>status = 400, body = message_body (js ''Invalid phone number format for SMS.'')\<rparr>)"
proof -
  have "js ''abc'' \<noteq> [] \<and> filter kept_by_cleaning (js ''abc'') = []"
    by (simp add: js_def kept_by_cleaning_def is_digit_def plus_sign_def)
  with invalid_format_unreachable [of "js ''abc''"] show ?thesis
    by blast
qed

text \<open>
  Claim C9 as stated fails on the strings without a digit that hold a \<^verbatim>\<open>+\<close>: the string
  \<^verbatim>\<open>+\<close> holds no digit and normalises to itself, not to \<^verbatim>\<open>+91\<close>.
\<close>

theorem no_digit_counterexample:
  "filter is_digit (js ''+'') = []
   \<and> truthy (JStr (js ''+''))
   \<and> formatPhoneNumberForTwilio (JStr (js ''+'')) = Inr (JStr (js ''+''))
   \<and> JStr (js ''+'') \<noteq> JStr (js ''+91'')"
  by (simp add: normaliser_eval)

section \<open>Claims about the booking message\<close>

lemmas white_eval = is_white_def js_def line_start_def

lemma white_space: "is_white 32" and white_line_feed: "is_white 10"
  by (simp_all add: is_white_def)

lemma takeWhile_spaces:
  "\<not> is_white c \<Longrightarrow> takeWhile is_white (replicate n 32 @ c # rest) = replicate n 32"
  by (induction n) (simp_all add: white_space)

lemma dropWhile_spaces:
  "\<not> is_white c \<Longrightarrow> dropWhile is_white (replicate n 32 @ c # rest) = c # rest"
  by (induction n) (simp_all add: white_space)

lemma cut_lead_line:
  assumes "\<not> is_white c"
  shows "cut_lead (line_start @ c # rest) = replicate 12 32 @ c # rest"
proof -
  have "takeWhile (\<lambda>c. c \<noteq> 10) (replicate n (32::nat) @ [10]) = replicate n 32" for n
    by (induction n) simp_all
  then show ?thesis
    using assms
    by (simp add: cut_lead_def line_start_def white_line_feed takeWhile_spaces Let_def)
qed

lemma cut_tail_last_line:
  assumes "xs \<noteq> []" and "\<not> is_white (last xs)"
  shows "cut_tail (xs @ 10 # replicate n 32) = xs"
  using assms
proof (induction xs)
  case Nil
  then show ?case by simp
next
  case (Cons c cs)
  show ?case
  proof (cases "cs = []")
    case True
    with Cons.prems have "c \<noteq> 10"
      using white_line_feed by auto
    with True show ?thesis
      by (simp add: white_space list_all_iff)
  next
    case False
    with Cons.prems have "\<not> list_all is_white (cs @ 10 # replicate n 32)"
      by (auto simp: list_all_iff)
    with False Cons show ?thesis
      by simp
  qed
qed

lemma collapse_line_start:
  "\<not> is_white c \<Longrightarrow> collapse_ws (line_start @ c # rest) = 32 # collapse_ws (c # rest)"
  by (simp add: line_start_def white_line_feed dropWhile_spaces del: collapse_ws.simps(2))
    (simp add: white_line_feed dropWhile_spaces)

lemma collapse_spaces:
  "\<not> is_white c \<Longrightarrow> 0 < n \<Longrightarrow>
   collapse_ws (replicate n 32 @ c # rest) = 32 # collapse_ws (c # rest)"
  by (cases n) (simp_all add: white_space dropWhile_spaces)

lemma trim_core:
  assumes "xs \<noteq> []" and "\<not> is_white (hd xs)" and "\<not> is_white (last xs)"
  shows "trim (32 # xs) = xs"
proof -
  from assms(1,2) have front: "dropWhile is_white (32 # xs) = xs"
    by (cases xs) (simp_all add: white_space)
  from assms(1,3) have "dropWhile is_white (rev xs) = rev xs"
    by (cases xs rule: rev_cases) simp_all
  with front show ?thesis
    by (simp add: trim_def)
qed

lemma absent_field:
  "read_prop bookingDetails (js name) = JUndefined \<Longrightarrow>
   field numberToString bookingDetails name d = Inr (js d)"
  by (simp add: field_def or_default_def to_string_def)

text \<open>
  Claim C7. When every optional field of \<^verbatim>\<open>bookingDetails\<close> is absent, the message is the
  fixed text of the template with the placeholders \<^verbatim>\<open>N/A\<close> and \<^verbatim>\<open>Assigned Soon\<close>: one
  line, whose only white space is the plain space, with no two spaces in a row and no
  white space at either end.
\<close>

theorem placeholder_message:
  assumes "read_prop bookingDetails (js ''bookingId'') = JUndefined"
    and "read_prop bookingDetails (js ''pickup'') = JUndefined"
    and "read_prop bookingDetails (js ''dropoff'') = JUndefined"
    and "read_prop bookingDetails (js ''pickupDate'') = JUndefined"
    and "read_prop bookingDetails (js ''pickupTime'') = JUndefined"
    and "read_prop bookingDetails (js ''fareDetails'') = JUndefined"
    and "read_prop bookingDetails (js ''driverName'') = JUndefined"
    and "read_prop bookingDetails (js ''driverVehicle'') = JUndefined"
  shows "\<exists>m. messageBody numberToString bookingDetails = Inr m
           \<and> m = js ''Fasttrack Drop Taxi Booking Confirmed! ID: N/A From: N/A To: N/A Date: N/A N/A Fare: ''
                 @ [226, 8218, 185]
                 @ js ''N/A Driver: Assigned Soon (N/A) Download App for updates!''
           \<and> (\<forall>c \<in> set m. is_white c \<longrightarrow> c = 32)
           \<and> single_spaced m
           \<and> m \<noteq> [] \<and> \<not> is_white (hd m) \<and> \<not> is_white (last m)"
proof -
  have fare: "fare_text numberToString bookingDetails = Inr (js ''N/A'')"
    using assms(6) by (simp add: fare_text_def fare_chain_def or_default_def to_string_def)
  have tmpl: "template numberToString bookingDetails = Inr (
      line_start @ js ''Fasttrack Drop Taxi Booking Confirmed!''
      @ line_start @ js ''ID: N/A''
      @ line_start @ js ''From: N/A''
      @ line_start @ js ''To: N/A''
      @ line_start @ js ''Date: N/A N/A''
      @ line_start @ js ''Fare: '' @ [226, 8218, 185] @ js ''N/A''
      @ line_start @ js ''Driver: Assigned Soon (N/A)''
      @ line_start @ js ''Download App for updates!''
      @ 10 # replicate 8 32)"
    using assms by (simp add: template_def absent_field fare) (simp add: js_def)
  let ?lines =
     "js ''Fasttrack Drop Taxi Booking Confirmed!''
      @ line_start @ js ''ID: N/A''
      @ line_start @ js ''From: N/A''
      @ line_start @ js ''To: N/A''
      @ line_start @ js ''Date: N/A N/A''
      @ line_start @ js ''Fare: '' @ [226, 8218, 185] @ js ''N/A''
      @ line_start @ js ''Driver: Assigned Soon (N/A)''
      @ line_start @ js ''Download App for updates!''"
  let ?m = "js ''Fasttrack Drop Taxi Booking Confirmed! ID: N/A From: N/A To: N/A Date: N/A N/A Fare: ''
        @ [226, 8218, 185]
        @ js ''N/A Driver: Assigned Soon (N/A) Download App for updates!''"
  have split: "template numberToString bookingDetails
      = Inr (line_start @ ?lines @ 10 # replicate 8 32)"
    unfolding tmpl by simp
  have last_lines: "?lines \<noteq> [] \<and> \<not> is_white (last ?lines)"
    by (simp add: js_def is_white_def)
  have lead: "cut_lead (line_start @ ?lines @ 10 # replicate 8 32)
      = replicate 12 32 @ ?lines @ 10 # replicate 8 32"
    by (simp add: js_def cut_lead_line is_white_def)
  have tail: "cut_tail ((replicate 12 32 @ ?lines) @ 10 # replicate 8 32)
      = replicate 12 32 @ ?lines"
    using last_lines by (intro cut_tail_last_line) simp_all
  have collapsed: "collapse_ws (replicate 12 32 @ ?lines) = 32 # ?m"
    by (simp add: js_def collapse_line_start collapse_spaces is_white_def
        del: replicate.simps)
  have ends: "?m \<noteq> [] \<and> \<not> is_white (hd ?m) \<and> \<not> is_white (last ?m)"
    by (simp add: js_def is_white_def)
  have trimmed: "messageBody numberToString bookingDetails = Inr ?m"
    using lead tail collapsed ends
    by (simp add: messageBody_def split trim_core del: replicate.simps)
  show ?thesis
    unfolding trimmed by (simp add: white_eval)
qed

theorem placeholder_message_witness:
  "\<forall>numberToString.
     messageBody numberToString (JObj []) =
       Inr (js ''Fasttrack Drop Taxi Booking Confirmed! ID: N/A From: N/A To: N/A Date: N/A N/A Fare: ''
            @ [226, 8218, 185]
            @ js ''N/A Driver: Assigned Soon (N/A) Download App for updates!'')"
proof
  fix numberToString
  have absent: "read_prop (JObj []) k = JUndefined" for k
    by (simp add: lookup_def)
  from placeholder_message [OF absent absent absent absent absent absent absent absent,
      of numberToString]
  show "messageBody numberToString (JObj []) =
       Inr (js ''Fasttrack Drop Taxi Booking Confirmed! ID: N/A From: N/A To: N/A Date: N/A N/A Fare: ''
            @ [226, 8218, 185]
            @ js ''N/A Driver: Assigned Soon (N/A) Download App for updates!'')"
    by auto
qed

lemma toFixed2_not_empty:
  assumes "\<forall>n. numberToString n \<noteq> []"
  shows "toFixed2 numberToString x \<noteq> []"
  using assms by (cases x) (simp_all add: js_def fixed_digits_def)

text \<open>A template literal throws the TypeError that one of its parts throws.\<close>

lemma literal_TypeError:
  assumes "Inl TypeError \<in> set parts" and "\<forall>e. Inl e \<in> set parts \<longrightarrow> e = TypeError"
  shows "literal parts = Inl TypeError"
  using assms
proof (induction parts rule: literal.induct)
  case 1
  then show ?case by simp
next
  case (2 e parts)
  then show ?case by simp
next
  case (3 s parts)
  then show ?case by auto
qed

lemma field_throws_TypeError:
  "field numberToString bookingDetails name d = Inl e \<Longrightarrow> e = TypeError"
  by (simp add: field_def to_string_def split: if_splits)

text \<open>
  Claim C10. A \<^verbatim>\<open>total\<close> is present when it is neither \<^verbatim>\<open>undefined\<close> nor \<^verbatim>\<open>null\<close>, as the
  optional chaining reads it. When \<^verbatim>\<open>fareDetails.total\<close> is present and no Number, the
  construction of the message throws on the call of \<^verbatim>\<open>toFixed\<close>, or before it on a field
  that has no string, and the handler responds 500 with its default message. The
  placeholder stands for the fare only when the chain gives a falsy value, and,
  \<^verbatim>\<open>Number::toString\<close> never printing the empty string, that is only when \<^verbatim>\<open>fareDetails\<close> or
  \<^verbatim>\<open>total\<close> is \<^verbatim>\<open>undefined\<close> or \<^verbatim>\<open>null\<close>.
\<close>

theorem non_number_total_throws:
  "(truthy phoneNumber \<and> truthy bookingDetails
      \<and> \<not> nullish (read_prop bookingDetails (js ''fareDetails''))
      \<and> \<not> nullish (read_prop (read_prop bookingDetails (js ''fareDetails'')) (js ''total''))
      \<and> (\<forall>n. read_prop (read_prop bookingDetails (js ''fareDetails'')) (js ''total'') \<noteq> JNum n)
    \<longrightarrow> messageBody numberToString bookingDetails = Inl TypeError
      \<and> send_booking_sms numberToString TWILIO_PHONE_NUMBER messages_create phoneNumber
            bookingDetails
          = Inr \<lparr>status = 500,
                 body = message_body (js ''Failed to send booking confirmation SMS.'')\<rparr>)
   \<and> ((\<forall>n. numberToString n \<noteq> []) \<and> fare_chain numberToString bookingDetails = Inr fare
        \<and> \<not> truthy fare
    \<longrightarrow> nullish (read_prop bookingDetails (js ''fareDetails''))
        \<or> nullish (read_prop (read_prop bookingDetails (js ''fareDetails'')) (js ''total'')))"
proof (intro conjI impI)
  assume a: "truthy phoneNumber \<and> truthy bookingDetails
      \<and> \<not> nullish (read_prop bookingDetails (js ''fareDetails''))
      \<and> \<not> nullish (read_prop (read_prop bookingDetails (js ''fareDetails'')) (js ''total''))
      \<and> (\<forall>n. read_prop (read_prop bookingDetails (js ''fareDetails'')) (js ''total'') \<noteq> JNum n)"
  then have chain: "fare_chain numberToString bookingDetails = Inl TypeError"
    by (cases "read_prop (read_prop bookingDetails (js ''fareDetails'')) (js ''total'')")
      (simp_all add: fare_chain_def)
  then have fare: "fare_text numberToString bookingDetails = Inl TypeError"
    by (simp add: fare_text_def)
  have "template numberToString bookingDetails = Inl TypeError"
    unfolding template_def
    by (rule literal_TypeError) (auto simp: fare dest: field_throws_TypeError [OF sym])
  then show thrown: "messageBody numberToString bookingDetails = Inl TypeError"
    by (simp add: messageBody_def)
  from a thrown
  show "send_booking_sms numberToString TWILIO_PHONE_NUMBER messages_create phoneNumber
            bookingDetails
          = Inr \<lparr>status = 500,
                 body = message_body (js ''Failed to send booking confirmation SMS.'')\<rparr>"
    by (simp add: send_booking_sms_def booking_try_def booking_error_message_def)
next
  assume b: "(\<forall>n. numberToString n \<noteq> []) \<and> fare_chain numberToString bookingDetails = Inr fare
        \<and> \<not> truthy fare"
  show "nullish (read_prop bookingDetails (js ''fareDetails''))
        \<or> nullish (read_prop (read_prop bookingDetails (js ''fareDetails'')) (js ''total''))"
  proof (rule ccontr)
    assume "\<not> ?thesis"
    with b obtain n where "fare = JStr (toFixed2 numberToString n)"
      by (cases "read_prop (read_prop bookingDetails (js ''fareDetails'')) (js ''total'')")
        (auto simp: fare_chain_def)
    with b toFixed2_not_empty [of numberToString n] show False
      by simp
  qed
qed

theorem non_number_total_throws_witness:
  "(\<forall>numberToString.
     messageBody numberToString
       (JObj [(js ''fareDetails'', JObj [(js ''total'', JStr (js ''100''))])]) = Inl TypeError
     \<and> send_booking_sms numberToString (JStr (js ''+15550100'')) (\<lambda>b t f. None)
          (JStr (js ''9876543210''))
          (JObj [(js ''fareDetails'', JObj [(js ''total'', JStr (js ''100''))])])
        = Inr \<lparr>status = 500,
               body = message_body (js ''Failed to send booking confirmation SMS.'')\<rparr>)
   \<and> fare_chain (\<lambda>n. js ''0'') (JObj [(js ''fareDetails'', JNull)]) = Inr JUndefined
   \<and> nullish (read_prop (JObj [(js ''fareDetails'', JNull)]) (js ''fareDetails''))"
proof (intro conjI allI)
  fix numberToString
  let ?bd = "JObj [(js ''fareDetails'', JObj [(js ''total'', JStr (js ''100''))])]"
  have present: "truthy (JStr (js ''9876543210'')) \<and> truthy ?bd
      \<and> \<not> nullish (read_prop ?bd (js ''fareDetails''))
      \<and> \<not> nullish (read_prop (read_prop ?bd (js ''fareDetails'')) (js ''total''))
      \<and> (\<forall>n. read_prop (read_prop ?bd (js ''fareDetails'')) (js ''total'') \<noteq> JNum n)"
    by (simp add: lookup_def js_def)
  from present non_number_total_throws [of "JStr (js ''9876543210'')" ?bd numberToString
      "JStr (js ''+15550100'')" "\<lambda>b t f. None"]
  show "messageBody numberToString ?bd = Inl TypeError"
    by blast
  from present non_number_total_throws [of "JStr (js ''9876543210'')" ?bd numberToString
      "JStr (js ''+15550100'')" "\<lambda>b t f. None"]
  show "send_booking_sms numberToString (JStr (js ''+15550100'')) (\<lambda>b t f. None)
          (JStr (js ''9876543210'')) ?bd
        = Inr \<lparr>status = 500,
               body = message_body (js ''Failed to send booking confirmation SMS.'')\<rparr>"
    by blast
next
  let ?absent = "JObj [(js ''fareDetails'', JNull)]"
  show chain: "fare_chain (\<lambda>n. js ''0'') ?absent = Inr JUndefined"
    by (simp add: fare_chain_def lookup_def)
  have "\<forall>n. (\<lambda>n. js ''0'') n \<noteq> []"
    by (simp add: js_def)
  with chain non_number_total_throws [of _ ?absent "\<lambda>n. js ''0''" _ _ JUndefined]
  have "nullish (read_prop ?absent (js ''fareDetails''))
        \<or> nullish (read_prop (read_prop ?absent (js ''fareDetails'')) (js ''total''))"
    by simp
  then show "nullish (read_prop ?absent (js ''fareDetails''))"
    by (simp add: lookup_def)
qed

section \<open>Claims about the verify-OTP handler\<close>

lemma log_line_printed:
  assumes "\<not> conversion_throws phoneNumber" and "\<not> conversion_throws otpCode"
  shows "\<exists>logged. literal [Inr a, to_string numberToString phoneNumber, Inr b,
                          to_string numberToString otpCode] = Inr logged"
  using assms by (simp add: to_string_def)

lemma log_line_throws:
  assumes "\<not> conversion_throws phoneNumber" and "conversion_throws otpCode"
  shows "literal [Inr a, to_string numberToString phoneNumber, Inr b,
                  to_string numberToString otpCode] = Inl TypeError"
  using assms by (simp add: to_string_def)

lemma rejection_message:
  assumes "\<not> conversion_throws (rej_status r)" and "\<not> conversion_throws (rej_message r)"
  shows "\<exists>m. otp_error_message numberToString typeErrorMessage (Rejected r) = Inr m"
  using assms by (simp add: otp_error_message_def provider_error_text_def to_string_def)

text \<open>
  Claim C6, as amended. Take a phone number that the normaliser accepts and a code. When
  the code has no string, the handler responds 500 with the message of the TypeError and
  the provider is not called. Otherwise the handler responds 200 with status \<^verbatim>\<open>approved\<close>
  exactly when the provider's check reports the status \<^verbatim>\<open>approved\<close>; for any other
  reported status it responds 400 and echoes that status; and when the provider's call is
  rejected with an error whose status and message have strings, it responds 500.
\<close>

theorem verify_otp_follows_provider:
  assumes "formatPhoneNumberForTwilio number = Inr phoneNumber"
    and "truthy phoneNumber" and "truthy otpCode"
  shows "(conversion_throws otpCode \<longrightarrow>
            verify_otp numberToString typeErrorMessage verificationChecks_create number otpCode
            = Inr \<lparr>status = 500, body = message_body (js ''Server Error: '' @ typeErrorMessage)\<rparr>)
     \<and> (\<not> conversion_throws otpCode \<longrightarrow>
         (case verificationChecks_create phoneNumber otpCode of
            Inr verificationCheck \<Rightarrow>
              (\<exists>res. verify_otp numberToString typeErrorMessage verificationChecks_create number
                       otpCode = Inr res
                 \<and> ((status res = 200 \<and> read_prop (body res) (js ''status'') = JStr (js ''approved''))
                      \<longleftrightarrow> vc_status verificationCheck = JStr (js ''approved''))
                 \<and> (vc_status verificationCheck \<noteq> JStr (js ''approved'') \<longrightarrow>
                      status res = 400
                      \<and> read_prop (body res) (js ''status'') = vc_status verificationCheck))
          | Inl error \<Rightarrow>
              \<not> conversion_throws (rej_status error) \<and> \<not> conversion_throws (rej_message error) \<longrightarrow>
              (\<exists>res. verify_otp numberToString typeErrorMessage verificationChecks_create number
                       otpCode = Inr res
                 \<and> status res = 500)))"
proof (intro conjI impI)
  note printable = normalised_printable [OF assms(1)]
  assume "conversion_throws otpCode"
  from log_line_throws [OF printable this] assms
  show "verify_otp numberToString typeErrorMessage verificationChecks_create number otpCode
        = Inr \<lparr>status = 500, body = message_body (js ''Server Error: '' @ typeErrorMessage)\<rparr>"
    by (simp add: verify_otp_def verify_try_def otp_error_message_def)
next
  note printable = normalised_printable [OF assms(1)]
  assume "\<not> conversion_throws otpCode"
  from log_line_printed [OF printable this]
  obtain logged where logged:
    "literal [Inr (js ''Attempting to verify OTP for: ''), to_string numberToString phoneNumber,
              Inr (js '' with code: ''), to_string numberToString otpCode] = Inr logged"
    by blast
  show "case verificationChecks_create phoneNumber otpCode of
            Inr verificationCheck \<Rightarrow>
              (\<exists>res. verify_otp numberToString typeErrorMessage verificationChecks_create number
                       otpCode = Inr res
                 \<and> ((status res = 200 \<and> read_prop (body res) (js ''status'') = JStr (js ''approved''))
                      \<longleftrightarrow> vc_status verificationCheck = JStr (js ''approved''))
                 \<and> (vc_status verificationCheck \<noteq> JStr (js ''approved'') \<longrightarrow>
                      status res = 400
                      \<and> read_prop (body res) (js ''status'') = vc_status verificationCheck))
          | Inl error \<Rightarrow>
              \<not> conversion_throws (rej_status error) \<and> \<not> conversion_throws (rej_message error) \<longrightarrow>
              (\<exists>res. verify_otp numberToString typeErrorMessage verificationChecks_create number
                       otpCode = Inr res
                 \<and> status res = 500)"
  proof (cases "verificationChecks_create phoneNumber otpCode")
    case (Inr verificationCheck)
    with assms logged show ?thesis
      by (auto simp: verify_otp_def verify_try_def lookup_def js_def)
  next
    case (Inl error)
    show ?thesis
    proof (simp only: Inl sum.case, intro impI)
      assume "\<not> conversion_throws (rej_status error) \<and> \<not> conversion_throws (rej_message error)"
      then obtain m where
        "otp_error_message numberToString typeErrorMessage (Rejected error) = Inr m"
        using rejection_message by blast
      with assms logged Inl
      show "\<exists>res. verify_otp numberToString typeErrorMessage verificationChecks_create number
                       otpCode = Inr res \<and> status res = 500"
        by (simp add: verify_otp_def verify_try_def)
    qed
  qed
qed

text \<open>
  The number 9876543210 with the code 123456: a check that reports \<^verbatim>\<open>pending\<close> is answered
  with 400 and that status, one that reports \<^verbatim>\<open>approved\<close> with 200, and a rejection with the
  status 404 and a message with 500. With the code \<^verbatim>\<open>{"toString": 1}\<close> the answer is 500.
\<close>

theorem verify_otp_follows_provider_witness:
  "\<forall>numberToString typeErrorMessage.
     (\<exists>res. verify_otp numberToString typeErrorMessage
               (\<lambda>t c. Inr \<lparr>vc_status = JStr (js ''pending'')\<rparr>)
               (JStr (js ''9876543210'')) (JStr (js ''123456'')) = Inr res
        \<and> status res = 400
        \<and> read_prop (body res) (js ''status'') = JStr (js ''pending''))
     \<and> (\<exists>res. verify_otp numberToString typeErrorMessage approving_provider
               (JStr (js ''9876543210'')) (JStr (js ''123456'')) = Inr res
        \<and> status res = 200
        \<and> read_prop (body res) (js ''status'') = JStr (js ''approved''))
     \<and> (\<exists>res. verify_otp numberToString typeErrorMessage
               (\<lambda>t c. Inl \<lparr>rej_status = JNum (Fin 404), rej_message = JStr (js ''not found''),
                            rej_is_Error = True\<rparr>)
               (JStr (js ''9876543210'')) (JStr (js ''123456'')) = Inr res
        \<and> status res = 500)
     \<and> verify_otp numberToString typeErrorMessage approving_provider
               (JStr (js ''9876543210'')) (JObj [(js ''toString'', JNum (Fin 1))])
       = Inr \<lparr>status = 500, body = message_body (js ''Server Error: '' @ typeErrorMessage)\<rparr>"
proof (intro allI conjI)
  fix numberToString :: "jsnum \<Rightarrow> jsstring" and typeErrorMessage :: jsstring
  let ?pending = "\<lambda>t c. Inr \<lparr>vc_status = JStr (js ''pending'')\<rparr> :: rejection + verification_check"
  let ?rejecting = "\<lambda>t c. Inl \<lparr>rej_status = JNum (Fin 404), rej_message = JStr (js ''not found''),
                            rej_is_Error = True\<rparr> :: rejection + verification_check"
  have norm: "formatPhoneNumberForTwilio (JStr (js ''9876543210'')) = Inr (JStr (js ''+919876543210''))"
    by (simp add: normaliser_eval)
  have pending: "JStr (js ''pending'') \<noteq> JStr (js ''approved'')"
    by (simp add: js_def)
  have number: "truthy (JStr (js ''+919876543210''))" and code: "truthy (JStr (js ''123456''))"
    and object: "truthy (JObj [(js ''toString'', JNum (Fin 1))])"
    by (simp_all add: js_def)
  have printable: "\<not> conversion_throws (JStr (js ''123456''))"
    and unprintable: "conversion_throws (JObj [(js ''toString'', JNum (Fin 1))])"
    by simp_all
  from verify_otp_follows_provider [OF norm number code, of numberToString typeErrorMessage ?pending]
    pending printable
  show "\<exists>res. verify_otp numberToString typeErrorMessage ?pending
             (JStr (js ''9876543210'')) (JStr (js ''123456'')) = Inr res
       \<and> status res = 400
       \<and> read_prop (body res) (js ''status'') = JStr (js ''pending'')"
    by auto
  from verify_otp_follows_provider [OF norm number code, of numberToString typeErrorMessage
      approving_provider] printable
  show "\<exists>res. verify_otp numberToString typeErrorMessage approving_provider
             (JStr (js ''9876543210'')) (JStr (js ''123456'')) = Inr res
       \<and> status res = 200
       \<and> read_prop (body res) (js ''status'') = JStr (js ''approved'')"
    by (auto simp: approving_provider_def)
  from verify_otp_follows_provider [OF norm number code, of numberToString typeErrorMessage
      ?rejecting] printable
  show "\<exists>res. verify_otp numberToString typeErrorMessage ?rejecting
             (JStr (js ''9876543210'')) (JStr (js ''123456'')) = Inr res
       \<and> status res = 500"
    by simp
  from verify_otp_follows_provider [OF norm number object, of numberToString typeErrorMessage
      approving_provider] unprintable
  show "verify_otp numberToString typeErrorMessage approving_provider
               (JStr (js ''9876543210'')) (JObj [(js ''toString'', JNum (Fin 1))])
       = Inr \<lparr>status = 500, body = message_body (js ''Server Error: '' @ typeErrorMessage)\<rparr>"
    by blast
qed

text \<open>
  Claim C6 as stated fails in two ways. With the code \<^verbatim>\<open>{"toString": 1}\<close> the log line
  before the provider's call throws, and the handler responds 500 whatever the provider
  would report, also for a provider that approves. And a rejection whose \<^verbatim>\<open>status\<close> is the
  object \<^verbatim>\<open>{"toString": 1}\<close> makes the template literal of the \<^verbatim>\<open>catch\<close> block throw: the
  exception leaves the handler, which sends no response.
\<close>

theorem verify_otp_counterexample:
  "approving_provider (JStr (js ''+919876543210'')) (JObj [(js ''toString'', JNum (Fin 1))])
     = Inr \<lparr>vc_status = JStr (js ''approved'')\<rparr>
   \<and> verify_otp integer_toString (js ''Cannot convert object to primitive value'')
       approving_provider (JStr (js ''9876543210'')) (JObj [(js ''toString'', JNum (Fin 1))])
     = Inr \<lparr>status = 500,
            body = message_body (js ''Server Error: Cannot convert object to primitive value'')\<rparr>
   \<and> verify_otp integer_toString (js ''Cannot convert object to primitive value'')
       rejecting_provider (JStr (js ''9876543210'')) (JStr (js ''123456''))
     = Inl TypeError"
proof -
  have norm: "formatPhoneNumberForTwilio (JStr (js ''9876543210'')) = Inr (JStr (js ''+919876543210''))"
    by (simp add: normaliser_eval)
  have "truthy (JStr (js ''+919876543210''))" and "truthy (JStr (js ''123456''))"
    by (simp_all add: js_def)
  then show ?thesis
    by (simp add: verify_otp_def norm verify_try_def to_string_def otp_error_message_def
        provider_error_text_def approving_provider_def rejecting_provider_def)
      (simp add: js_def)
qed


end
